theory Spec2Isabelle
  imports Complex_Main
begin

section \<open>Python values, dictionaries and exceptions\<close>

text \<open>
  The scripts read documents of a MongoDB collection as Python dictionaries. A scalar
  value of a document is a \<open>pyval\<close>: \<open>None\<close>, a bool, an int, a float or a string.
  A finite float is the rational number it denotes; the scripts only compare floats with
  integer literals and test them for zero, which is exact. (NaN and the infinities are
  not values of the model; for every operation below they behave as a float that is
  neither zero nor an integer.)
\<close>

datatype pyval = PNone | PBool bool | PInt int | PFloat rat | PStr string

datatype error = TypeError | KeyError | ZeroDivisionError | AttributeError | InvalidId | PyMongoError

text \<open>
  A key of a document that holds a collection is absent, holds \<open>None\<close> (BSON null) or
  holds a list.
\<close>

datatype 'a dict_value = Absent | Null | Val 'a

text \<open>\<open>d.get(k)\<close>: \<open>None\<close> when the key is absent or holds null.\<close>

fun dict_get :: "'a dict_value \<Rightarrow> 'a option" where
  "dict_get Absent = None"
| "dict_get Null = None"
| "dict_get (Val v) = Some v"

text \<open>\<open>d.get(k, dflt)\<close>: the default only replaces an absent key, never a stored null.\<close>

fun dict_get_default :: "'a dict_value \<Rightarrow> 'a \<Rightarrow> 'a option" where
  "dict_get_default Absent dflt = Some dflt"
| "dict_get_default Null dflt = None"
| "dict_get_default (Val v) dflt = Some v"

text \<open>Truth value of \<open>None\<close> or a list: only a non-empty list is true.\<close>

fun truthy_list :: "'a list option \<Rightarrow> bool" where
  "truthy_list None = False"
| "truthy_list (Some xs) = (xs \<noteq> [])"

text \<open>\<open>len(x)\<close> raises TypeError on \<open>None\<close>.\<close>

fun py_len :: "'a list option \<Rightarrow> error + int" where
  "py_len None = Inl TypeError"
| "py_len (Some xs) = Inr (int (length xs))"

text \<open>Scalar keys: \<open>None\<close> of the option is an absent key.\<close>

fun scalar_get :: "pyval option \<Rightarrow> pyval" where
  "scalar_get None = PNone"
| "scalar_get (Some v) = v"

fun scalar_get_default :: "pyval option \<Rightarrow> pyval \<Rightarrow> pyval" where
  "scalar_get_default None dflt = dflt"
| "scalar_get_default (Some v) dflt = v"

fun truthy :: "pyval \<Rightarrow> bool" where
  "truthy PNone = False"
| "truthy (PBool b) = b"
| "truthy (PInt i) = (i \<noteq> 0)"
| "truthy (PFloat f) = (f \<noteq> 0)"
| "truthy (PStr s) = (s \<noteq> [])"

text \<open>\<open>x is True\<close>: only the bool \<open>True\<close> itself.\<close>

fun is_True :: "pyval \<Rightarrow> bool" where
  "is_True (PBool b) = b"
| "is_True v = False"

text \<open>\<open>x == n\<close> for an int literal \<open>n\<close>; a bool compares as 0 or 1.\<close>

fun py_eq_int :: "pyval \<Rightarrow> int \<Rightarrow> bool" where
  "py_eq_int (PInt i) n = (i = n)"
| "py_eq_int (PBool b) n = ((if b then 1 else 0) = n)"
| "py_eq_int (PFloat f) n = (f = of_int n)"
| "py_eq_int v n = False"

text \<open>\<open>isinstance(x, int)\<close>: bool is a subclass of int.\<close>

fun isinstance_int :: "pyval \<Rightarrow> bool" where
  "isinstance_int (PInt i) = True"
| "isinstance_int (PBool b) = True"
| "isinstance_int v = False"

text \<open>\<open>x < n\<close> and \<open>x > n\<close> for an int literal: TypeError on \<open>None\<close> and on a string.\<close>

fun py_lt_int :: "pyval \<Rightarrow> int \<Rightarrow> error + bool" where
  "py_lt_int (PInt i) n = Inr (i < n)"
| "py_lt_int (PBool b) n = Inr ((if b then 1 else 0) < n)"
| "py_lt_int (PFloat f) n = Inr (f < of_int n)"
| "py_lt_int v n = Inl TypeError"

fun py_gt_int :: "pyval \<Rightarrow> int \<Rightarrow> error + bool" where
  "py_gt_int (PInt i) n = Inr (n < i)"
| "py_gt_int (PBool b) n = Inr (n < (if b then 1 else 0))"
| "py_gt_int (PFloat f) n = Inr (of_int n < f)"
| "py_gt_int v n = Inl TypeError"

text \<open>Sequencing of computations that may raise.\<close>

fun bind :: "error + 'a \<Rightarrow> ('a \<Rightarrow> error + 'b) \<Rightarrow> error + 'b" where
  "bind (Inl e) f = Inl e"
| "bind (Inr x) f = f x"

text \<open>A loop that runs a raising body over a list and collects the results.\<close>

fun map_raise :: "('a \<Rightarrow> error + 'b) \<Rightarrow> 'a list \<Rightarrow> error + 'b list" where
  "map_raise f [] = Inr []"
| "map_raise f (x # xs) = bind (f x) (\<lambda>y. bind (map_raise f xs) (\<lambda>ys. Inr (y # ys)))"

text \<open>A loop that threads a state through a raising body.\<close>

fun fold_raise :: "('a \<Rightarrow> 's \<Rightarrow> error + 's) \<Rightarrow> 'a list \<Rightarrow> 's \<Rightarrow> error + 's" where
  "fold_raise f [] s = Inr s"
| "fold_raise f (x # xs) s = bind (f x s) (fold_raise f xs)"

section \<open>Student documents\<close>

text \<open>
  A skill entry as the importer writes it (skill\_from\_resume.py):
  \<open>{"name": ..., "rating": 2, "composite": None, "versions": []}\<close>.
\<close>

record skill_obj =
  name :: string
  rating :: int
  composite :: pyval
  versions :: "pyval list"

text \<open>
  An education entry. The college name is a string when present; the other keys hold any
  scalar.
\<close>

record edu_record =
  is_primary :: "pyval option"
  college_name :: "string dict_value"
  performance :: "pyval option"
  end_year :: "pyval option"

record student =
  student_id :: string
  skills :: "skill_obj list dict_value"
  projects :: "pyval list dict_value"
  work_experiences :: "pyval list dict_value"
  achievements :: "pyval list dict_value"
  awards :: "pyval list dict_value"
  education_records :: "edu_record list dict_value"

section \<open>Skill bands (college\_skill.py, skill.py, skill\_year.py)\<close>

text \<open>college\_skill.py, \<open>get_skills_count\<close>: \<open>len(skills) if skills else 0\<close>.\<close>

definition get_skills_count :: "student \<Rightarrow> error + int" where
  "get_skills_count st =
     (let sk = dict_get_default (skills st) [] in
      if truthy_list sk then py_len sk else Inr 0)"

text \<open>
  The chain \<open>if skills_count == 0 ... elif 1 <= skills_count <= 3 ... else\<close>, which
  college\_skill.py (\<open>analyze_student_record\<close>), skill.py and skill\_year.py (\<open>main\<close>)
  contain word for word.
\<close>

definition skills_category :: "int \<Rightarrow> string" where
  "skills_category skills_count =
     (if skills_count = 0 then ''0 skills''
      else if 1 \<le> skills_count \<and> skills_count \<le> 3 then ''1-3 skills''
      else if 4 \<le> skills_count \<and> skills_count \<le> 6 then ''4-6 skills''
      else if 7 \<le> skills_count \<and> skills_count \<le> 10 then ''7-10 skills''
      else ''10+ skills'')"

section \<open>College name (college\_counts.py, college\_skill.py)\<close>

text \<open>\<open>for x in v\<close> raises TypeError when \<open>v\<close> is \<open>None\<close>.\<close>

fun py_iter :: "'a list option \<Rightarrow> error + 'a list" where
  "py_iter None = Inl TypeError"
| "py_iter (Some xs) = Inr xs"

text \<open>
  The loop of \<open>get_college_name\<close>: it returns from inside the loop at the first entry
  with \<open>record.get('is_primary') is True and record.get('college_name')\<close>; \<open>None\<close>
  is the loop running to its end.
\<close>

fun college_scan :: "edu_record list \<Rightarrow> string option" where
  "college_scan [] = None"
| "college_scan (r # rs) =
     (if is_True (scalar_get (is_primary r)) \<and> truthy_list (dict_get (college_name r))
      then dict_get (college_name r)
      else college_scan rs)"

definition get_college_name :: "student \<Rightarrow> error + string" where
  "get_college_name st =
     (if truthy_list (dict_get (education_records st))
      then bind (py_iter (dict_get_default (education_records st) []))
             (\<lambda>rs. case college_scan rs of Some c \<Rightarrow> Inr c | None \<Rightarrow> Inr ''Unknown'')
      else Inr ''Unknown'')"

text \<open>
  college\_skill.py, \<open>analyze_student_record\<close>: the college name, the skill count and
  its band.
\<close>

record skills_result =
  sr_college_name :: string
  sr_skills_count :: int
  sr_skills_category :: string

definition college_skill_analyze_student_record :: "student \<Rightarrow> error + skills_result" where
  "college_skill_analyze_student_record st =
     bind (get_college_name st) (\<lambda>cn.
     bind (get_skills_count st) (\<lambda>n.
     Inr \<lparr>sr_college_name = cn, sr_skills_count = n, sr_skills_category = skills_category n\<rparr>))"

section \<open>Presence flags (college\_counts.py, counts.py, no\_skill.py)\<close>

text \<open>
  The test \<open>student.get(k) and len(student.get(k, [])) > 0\<close>, read as a truth value:
  \<open>and\<close> evaluates its right operand only when the left one is true.
\<close>

definition has_nonempty :: "'a list dict_value \<Rightarrow> error + bool" where
  "has_nonempty f =
     (if truthy_list (dict_get f)
      then bind (py_len (dict_get_default f [])) (\<lambda>n. Inr (0 < n))
      else Inr False)"

text \<open>
  The loop that sets \<open>has_performance\<close> and breaks at the first entry with
  \<open>record.get('is_primary') is True and record.get('performance') is not None\<close>.
\<close>

fun performance_scan :: "edu_record list \<Rightarrow> bool" where
  "performance_scan [] = False"
| "performance_scan (r # rs) =
     (if is_True (scalar_get (is_primary r)) \<and> scalar_get (performance r) \<noteq> PNone
      then True
      else performance_scan rs)"

definition has_performance :: "student \<Rightarrow> error + bool" where
  "has_performance st =
     (if truthy_list (dict_get (education_records st))
      then bind (py_iter (dict_get_default (education_records st) []))
             (\<lambda>rs. Inr (performance_scan rs))
      else Inr False)"

record college_result =
  cr_college_name :: string
  cr_has_projects :: bool
  cr_has_experience :: bool
  cr_has_achievements :: bool
  cr_has_skills :: bool
  cr_has_grade :: bool

text \<open>college\_counts.py, \<open>analyze_student_record\<close>.\<close>

definition college_counts_analyze_student_record :: "student \<Rightarrow> error + college_result" where
  "college_counts_analyze_student_record st =
     bind (get_college_name st) (\<lambda>cn.
     bind (has_nonempty (projects st)) (\<lambda>hp.
     bind (has_nonempty (work_experiences st)) (\<lambda>he.
     bind (has_nonempty (achievements st)) (\<lambda>ha.
     bind (has_nonempty (awards st)) (\<lambda>hw.
     bind (has_nonempty (skills st)) (\<lambda>hs.
     bind (has_performance st) (\<lambda>hg.
     Inr \<lparr>cr_college_name = cn, cr_has_projects = hp, cr_has_experience = he,
          cr_has_achievements = (ha \<or> hw), cr_has_skills = hs, cr_has_grade = hg\<rparr>)))))))"

text \<open>counts.py, \<open>analyze_student_record\<close>: each key is "have" or "have\_not".\<close>

record counts_result =
  r_projects :: string
  r_work_experience :: string
  r_achievements :: string
  r_skills :: string
  r_grade :: string

definition have_or_not :: "bool \<Rightarrow> string" where
  "have_or_not b = (if b then ''have'' else ''have_not'')"

definition counts_analyze_student_record :: "student \<Rightarrow> error + counts_result" where
  "counts_analyze_student_record st =
     bind (has_nonempty (projects st)) (\<lambda>hp.
     bind (has_nonempty (work_experiences st)) (\<lambda>he.
     bind (has_nonempty (achievements st)) (\<lambda>ha.
     bind (has_nonempty (awards st)) (\<lambda>hw.
     bind (has_nonempty (skills st)) (\<lambda>hs.
     bind (has_performance st) (\<lambda>hg.
     Inr \<lparr>r_projects = have_or_not hp, r_work_experience = have_or_not he,
          r_achievements = have_or_not (ha \<or> hw), r_skills = have_or_not hs,
          r_grade = have_or_not hg\<rparr>))))))"

text \<open>
  no\_skill.py, \<open>process_batch\<close>. \<open>has_no_skills\<close> is
  \<open>not student.get('skills') or len(student.get('skills', [])) == 0\<close>; the resume
  dictionary maps the string of a student's id to a link.
\<close>

record no_skill_counts =
  no_skills_with_education :: int
  no_skills_with_projects :: int
  no_skills_with_work_exp :: int
  no_skills_with_resume :: int

definition has_no_skills :: "student \<Rightarrow> error + bool" where
  "has_no_skills st =
     (if \<not> truthy_list (dict_get (skills st)) then Inr True
      else bind (py_len (dict_get_default (skills st) [])) (\<lambda>n. Inr (n = 0)))"

definition no_skill_student :: "(string \<rightharpoonup> string) \<Rightarrow> student \<Rightarrow> no_skill_counts \<Rightarrow> error + no_skill_counts" where
  "no_skill_student resume_dict st c =
     bind (has_no_skills st) (\<lambda>none.
       if none then
         bind (has_nonempty (education_records st)) (\<lambda>he.
         bind (has_nonempty (work_experiences st)) (\<lambda>hw.
         bind (has_nonempty (projects st)) (\<lambda>hp.
         Inr \<lparr>no_skills_with_education = no_skills_with_education c + (if he then 1 else 0),
              no_skills_with_projects = no_skills_with_projects c + (if hp then 1 else 0),
              no_skills_with_work_exp = no_skills_with_work_exp c + (if hw then 1 else 0),
              no_skills_with_resume =
                no_skills_with_resume c + (if resume_dict (student_id st) \<noteq> None then 1 else 0)\<rparr>)))
       else Inr c)"

definition no_skill_process_batch :: "student list \<Rightarrow> (string \<rightharpoonup> string) \<Rightarrow> error + no_skill_counts" where
  "no_skill_process_batch students resume_dict =
     fold_raise (no_skill_student resume_dict) students
       \<lparr>no_skills_with_education = 0, no_skills_with_projects = 0,
        no_skills_with_work_exp = 0, no_skills_with_resume = 0\<rparr>"

section \<open>Vocabulary of the specification\<close>

text \<open>
  The entries of a collection as the specification counts them: an absent key and a null
  hold none.
\<close>

definition field_items :: "'a list dict_value \<Rightarrow> 'a list" where
  "field_items f = (case f of Val xs \<Rightarrow> xs | Null \<Rightarrow> [] | Absent \<Rightarrow> [])"

text \<open>"Has both \<open>is_primary\<close> equal to true and a non-empty college name".\<close>

definition primary_with_college :: "edu_record \<Rightarrow> bool" where
  "primary_with_college r =
     (scalar_get (is_primary r) = PBool True
      \<and> (case college_name r of Val c \<Rightarrow> c \<noteq> [] | Null \<Rightarrow> False | Absent \<Rightarrow> False))"

text \<open>"Is flagged primary and has a performance that is not null".\<close>

definition primary_with_performance :: "edu_record \<Rightarrow> bool" where
  "primary_with_performance r =
     (scalar_get (is_primary r) = PBool True \<and> scalar_get (performance r) \<noteq> PNone)"

text \<open>A student whose only education entry is primary and names the college "Unknown".\<close>

definition unknown_college_entry :: edu_record where
  "unknown_college_entry =
     \<lparr>is_primary = Some (PBool True), college_name = Val ''Unknown'',
      performance = None, end_year = None\<rparr>"

definition unknown_college_student :: student where
  "unknown_college_student =
     \<lparr>student_id = ''s1'', skills = Absent, projects = Absent, work_experiences = Absent,
      achievements = Absent, awards = Absent,
      education_records = Val [unknown_college_entry]\<rparr>"

section \<open>Aggregation over a data frame (counts.py, college\_counts.py)\<close>

text \<open>
  \<open>main\<close> of both scripts reads the collection page by page, runs \<open>process_batch\<close> on
  each page and extends \<open>all_results\<close> with the results. The model takes the documents of
  all pages as one list, in the order the pages return them.

  \<open>pd.DataFrame(all_results)[key]\<close>: a frame built from an empty list of dictionaries
  has no columns, so reading any column raises KeyError.
\<close>

definition df_column :: "'r list \<Rightarrow> ('r \<Rightarrow> 'v) \<Rightarrow> error + 'v list" where
  "df_column df key = (if df = [] then Inl KeyError else Inr (map key df))"

record have_counts =
  n_have :: int
  n_have_not :: int

record stats =
  total_processed :: int
  s_projects :: have_counts
  s_work_experience :: have_counts
  s_achievements :: have_counts
  s_skills :: have_counts
  s_grade :: have_counts

text \<open>
  counts.py, \<open>main\<close>, the body of \<open>for category in [...]\<close>:
  \<open>df[category].value_counts().to_dict()\<close> read with \<open>.get("have", 0)\<close> and
  \<open>.get("have_not", 0)\<close>.
\<close>

definition category_counts :: "counts_result list \<Rightarrow> (counts_result \<Rightarrow> string) \<Rightarrow> error + have_counts" where
  "category_counts df category =
     bind (df_column df category) (\<lambda>col.
       Inr \<lparr>n_have = int (count_list col ''have''),
            n_have_not = int (count_list col ''have_not'')\<rparr>)"

definition counts_main :: "student list \<Rightarrow> error + stats" where
  "counts_main students =
     bind (map_raise counts_analyze_student_record students) (\<lambda>df.
     bind (category_counts df r_projects) (\<lambda>p.
     bind (category_counts df r_work_experience) (\<lambda>w.
     bind (category_counts df r_achievements) (\<lambda>a.
     bind (category_counts df r_skills) (\<lambda>s.
     bind (category_counts df r_grade) (\<lambda>g.
     Inr \<lparr>total_processed = int (length df), s_projects = p, s_work_experience = w,
          s_achievements = a, s_skills = s, s_grade = g\<rparr>))))))"

text \<open>
  college\_counts.py, \<open>main\<close>. \<open>unique()\<close> keeps the first occurrence of each value;
  \<open>.sum()\<close> of a column of bools counts the true ones. The rows are those of
  \<open>summary_data\<close>, before they are sorted by college name and written.
\<close>

definition unique :: "'a list \<Rightarrow> 'a list" where
  "unique xs = rev (remdups (rev xs))"

definition bool_sum :: "bool list \<Rightarrow> int" where
  "bool_sum col = sum_list (map (\<lambda>b. if b then 1 else 0) col)"

record college_summary =
  College_Name :: string
  Total_Students :: int
  Have_Projects :: int
  No_Projects :: int
  Have_Experience :: int
  No_Experience :: int
  Have_Achievements :: int
  No_Achievements :: int
  Have_Skills :: int
  No_Skills :: int
  Have_Grade :: int
  No_Grade :: int

definition college_summary_row :: "college_result list \<Rightarrow> string \<Rightarrow> college_summary" where
  "college_summary_row df college =
     (let college_df = filter (\<lambda>r. cr_college_name r = college) df;
          college_count = int (length college_df)
      in \<lparr>College_Name = college,
          Total_Students = college_count,
          Have_Projects = bool_sum (map cr_has_projects college_df),
          No_Projects = college_count - bool_sum (map cr_has_projects college_df),
          Have_Experience = bool_sum (map cr_has_experience college_df),
          No_Experience = college_count - bool_sum (map cr_has_experience college_df),
          Have_Achievements = bool_sum (map cr_has_achievements college_df),
          No_Achievements = college_count - bool_sum (map cr_has_achievements college_df),
          Have_Skills = bool_sum (map cr_has_skills college_df),
          No_Skills = college_count - bool_sum (map cr_has_skills college_df),
          Have_Grade = bool_sum (map cr_has_grade college_df),
          No_Grade = college_count - bool_sum (map cr_has_grade college_df)\<rparr>)"

definition college_counts_main :: "student list \<Rightarrow> error + college_summary list" where
  "college_counts_main students =
     bind (map_raise college_counts_analyze_student_record students) (\<lambda>df.
     bind (df_column df cr_college_name) (\<lambda>col.
     Inr (map (college_summary_row df) (unique col))))"

section \<open>Graduation years (education\_count.py)\<close>

text \<open>
  The counters of \<open>process_batch\<close>. \<open>local_counts\<close> is a \<open>defaultdict(int)\<close> of which
  only the keys "2026" and "2027" are ever touched.
\<close>

record year_counts =
  c2026 :: int
  c2027 :: int
  special_count :: int
  no_primary_count :: int

text \<open>
  The last \<open>elif\<close>:
  \<open>end_year is None or not isinstance(end_year, int) or end_year < 2023 or end_year > 2027\<close>;
  \<open>or\<close> stops at the first true operand.
\<close>

definition special_case :: "pyval \<Rightarrow> error + bool" where
  "special_case y =
     (if y = PNone then Inr True
      else if \<not> isinstance_int y then Inr True
      else bind (py_lt_int y 2023) (\<lambda>lt. if lt then Inr True else py_gt_int y 2027))"

text \<open>The body of \<open>for edu_record in ...\<close>; the bool is \<open>has_primary\<close>.\<close>

definition count_entry :: "edu_record \<Rightarrow> bool \<times> year_counts \<Rightarrow> error + bool \<times> year_counts" where
  "count_entry e s =
     (case s of (has_primary, c) \<Rightarrow>
        if truthy (scalar_get_default (is_primary e) (PBool False)) then
          (let y = scalar_get (end_year e) in
           if py_eq_int y 2026 then Inr (True, c\<lparr>c2026 := c2026 c + 1\<rparr>)
           else if py_eq_int y 2027 then Inr (True, c\<lparr>c2027 := c2027 c + 1\<rparr>)
           else bind (special_case y) (\<lambda>sp.
                  if sp then Inr (True, c\<lparr>special_count := special_count c + 1\<rparr>)
                  else Inr (True, c)))
        else Inr (has_primary, c))"

text \<open>The body of \<open>for student in batch\<close>.\<close>

definition count_student :: "student \<Rightarrow> year_counts \<Rightarrow> error + year_counts" where
  "count_student st c =
     bind (py_iter (dict_get_default (education_records st) [])) (\<lambda>rs.
     bind (fold_raise count_entry rs (False, c)) (\<lambda>s.
       case s of (has_primary, c') \<Rightarrow>
         if \<not> has_primary \<and> truthy_list (dict_get (education_records st))
         then Inr (c'\<lparr>no_primary_count := no_primary_count c' + 1\<rparr>)
         else Inr c'))"

definition zero_year_counts :: year_counts where
  "zero_year_counts = \<lparr>c2026 = 0, c2027 = 0, special_count = 0, no_primary_count = 0\<rparr>"

definition education_count_process_batch :: "student list \<Rightarrow> error + year_counts" where
  "education_count_process_batch batch = fold_raise count_student batch zero_year_counts"

text \<open>
  \<open>main\<close>: the cursor's students are collected in \<open>current_batch\<close>; a batch of 100 is
  processed and its counters are added to the totals; the rest is processed after the loop.
\<close>

definition add_year_counts :: "year_counts \<Rightarrow> year_counts \<Rightarrow> year_counts" where
  "add_year_counts t r =
     \<lparr>c2026 = c2026 t + c2026 r, c2027 = c2027 t + c2027 r,
      special_count = special_count t + special_count r,
      no_primary_count = no_primary_count t + no_primary_count r\<rparr>"

fun education_count_loop :: "student list \<Rightarrow> student list \<Rightarrow> year_counts \<Rightarrow> error + year_counts" where
  "education_count_loop [] current_batch t =
     (if current_batch \<noteq> []
      then bind (education_count_process_batch current_batch) (\<lambda>r. Inr (add_year_counts t r))
      else Inr t)"
| "education_count_loop (st # cursor) current_batch t =
     (if 100 \<le> length (current_batch @ [st])
      then bind (education_count_process_batch (current_batch @ [st]))
             (\<lambda>r. education_count_loop cursor [] (add_year_counts t r))
      else education_count_loop cursor (current_batch @ [st]) t)"

text \<open>
  \<open>safe_percentage\<close>: \<open>(num/denom)*100 if denom > 0 else 0\<close>. A percentage is the
  exact quotient; its rounding to a double is not modelled.
\<close>

definition safe_percentage :: "int \<Rightarrow> int \<Rightarrow> rat" where
  "safe_percentage num denom = (if 0 < denom then (of_int num / of_int denom) * 100 else 0)"

text \<open>
  The two queries of \<open>main\<close>: \<open>{"$or": [{"$exists": False}, {"$eq": []}]}\<close> counts the
  students with no education records, and \<open>{"$exists": True, "$ne": []}\<close> selects the
  students to process; a stored null exists and differs from the empty list.
\<close>

fun no_education_records :: "student \<Rightarrow> bool" where
  "no_education_records st =
     (case education_records st of Absent \<Rightarrow> True | Null \<Rightarrow> False | Val rs \<Rightarrow> rs = [])"

fun with_education_records :: "student \<Rightarrow> bool" where
  "with_education_records st =
     (case education_records st of Absent \<Rightarrow> False | Null \<Rightarrow> True | Val rs \<Rightarrow> rs \<noteq> [])"

record education_summary =
  es_counts :: year_counts
  es_no_education_records_count :: int
  es_percentages :: "rat list"

definition education_count_main :: "student list \<Rightarrow> error + education_summary" where
  "education_count_main students =
     (let total_students = int (length students);
          no_education_records_count = int (length (filter no_education_records students))
      in bind (education_count_loop (filter with_education_records students) [] zero_year_counts)
           (\<lambda>t. let total_primary_education = c2026 t + c2027 t + special_count t in
              Inr \<lparr>es_counts = t,
                   es_no_education_records_count = no_education_records_count,
                   es_percentages =
                     [safe_percentage total_primary_education total_students,
                      safe_percentage (c2026 t) total_students,
                      safe_percentage (c2027 t) total_students,
                      safe_percentage (special_count t) total_students,
                      safe_percentage no_education_records_count total_students,
                      safe_percentage (no_primary_count t) total_students]\<rparr>))"

section \<open>Skill counts and their percentages (skill.py)\<close>

text \<open>\<open>d[k] += 1\<close> on a dictionary kept in insertion order; KeyError when the key is missing.\<close>

fun dict_incr :: "(string \<times> int) list \<Rightarrow> string \<Rightarrow> error + (string \<times> int) list" where
  "dict_incr [] k = Inl KeyError"
| "dict_incr (kv # d) k =
     (if fst kv = k then Inr ((fst kv, snd kv + 1) # d)
      else bind (dict_incr d k) (\<lambda>d'. Inr (kv # d')))"

definition skill_categories :: "(string \<times> int) list" where
  "skill_categories =
     [(''0 skills'', 0), (''1-3 skills'', 0), (''4-6 skills'', 0), (''7-10 skills'', 0),
      (''10+ skills'', 0)]"

text \<open>\<open>a / b\<close> on ints: ZeroDivisionError when \<open>b\<close> is 0.\<close>

definition py_truediv :: "int \<Rightarrow> int \<Rightarrow> error + rat" where
  "py_truediv a b = (if b = 0 then Inl ZeroDivisionError else Inr (of_int a / of_int b))"

text \<open>
  The body of \<open>for student in collection.find(...)\<close>: each branch of the chain increments
  the counter of its label; the state is the dictionary and \<open>processed_count\<close>.
\<close>

definition skill_main_body :: "student \<Rightarrow> (string \<times> int) list \<times> int \<Rightarrow> error + (string \<times> int) list \<times> int" where
  "skill_main_body st s =
     (case s of (categories, processed_count) \<Rightarrow>
        bind (get_skills_count st) (\<lambda>skills_count.
        bind (dict_incr categories (skills_category skills_count)) (\<lambda>categories'.
        Inr (categories', processed_count + 1))))"

text \<open>
  The summary loop \<open>percentage = (count / processed_count) * 100\<close> over the items of the
  dictionary. \<open>main\<close> returns the counters, the number of processed records and the
  percentages it logs.
\<close>

definition percentage_of :: "int \<Rightarrow> string \<times> int \<Rightarrow> error + string \<times> rat" where
  "percentage_of processed_count item =
     bind (py_truediv (snd item) processed_count) (\<lambda>q. Inr (fst item, q * 100))"

definition skill_main :: "student list \<Rightarrow> error + (string \<times> int) list \<times> int \<times> (string \<times> rat) list" where
  "skill_main students =
     bind (fold_raise skill_main_body students (skill_categories, 0)) (\<lambda>s.
       case s of (categories, processed_count) \<Rightarrow>
         bind (map_raise (percentage_of processed_count) categories) (\<lambda>percentages.
         Inr (categories, processed_count, percentages)))"

section \<open>Students without skills (no\_skill.py, \<open>main\<close>)\<close>

definition add_no_skill_counts :: "no_skill_counts \<Rightarrow> no_skill_counts \<Rightarrow> no_skill_counts" where
  "add_no_skill_counts t r =
     \<lparr>no_skills_with_education = no_skills_with_education t + no_skills_with_education r,
      no_skills_with_projects = no_skills_with_projects t + no_skills_with_projects r,
      no_skills_with_work_exp = no_skills_with_work_exp t + no_skills_with_work_exp r,
      no_skills_with_resume = no_skills_with_resume t + no_skills_with_resume r\<rparr>"

fun no_skill_loop :: "(string \<rightharpoonup> string) \<Rightarrow> student list \<Rightarrow> student list \<Rightarrow> no_skill_counts \<Rightarrow> error + no_skill_counts" where
  "no_skill_loop resume_dict [] batch t =
     (if batch \<noteq> []
      then bind (no_skill_process_batch batch resume_dict) (\<lambda>r. Inr (add_no_skill_counts t r))
      else Inr t)"
| "no_skill_loop resume_dict (st # cursor) batch t =
     (if 100 \<le> length (batch @ [st])
      then bind (no_skill_process_batch (batch @ [st]) resume_dict)
             (\<lambda>r. no_skill_loop resume_dict cursor [] (add_no_skill_counts t r))
      else no_skill_loop resume_dict cursor (batch @ [st]) t)"

text \<open>
  The percentage lines divide by \<open>total_students\<close>, the number of documents of the
  collection, with no test. \<open>main\<close> returns the totals and the four percentages.
\<close>

definition no_skill_main :: "student list \<Rightarrow> (string \<rightharpoonup> string) \<Rightarrow> error + no_skill_counts \<times> rat list" where
  "no_skill_main students resume_dict =
     (let total_students = int (length students) in
      bind (no_skill_loop resume_dict students []
              \<lparr>no_skills_with_education = 0, no_skills_with_projects = 0,
               no_skills_with_work_exp = 0, no_skills_with_resume = 0\<rparr>) (\<lambda>t.
      bind (py_truediv (no_skills_with_education t) total_students) (\<lambda>p1.
      bind (py_truediv (no_skills_with_projects t) total_students) (\<lambda>p2.
      bind (py_truediv (no_skills_with_work_exp t) total_students) (\<lambda>p3.
      bind (py_truediv (no_skills_with_resume t) total_students) (\<lambda>p4.
      Inr (t, [p1 * 100, p2 * 100, p3 * 100, p4 * 100])))))))"

section \<open>Skill bands by graduation year (skill\_year.py)\<close>

record skill_year_state =
  sy_skill_categories :: "(string \<times> int) list"
  grad_year_2026_categories :: "(string \<times> int) list"
  grad_year_2027_categories :: "(string \<times> int) list"
  sy_processed_count :: int
  grad_2026_count :: int
  grad_2027_count :: int

text \<open>The body of \<open>for edu_record in education_records\<close>; there is no \<open>else\<close> branch.\<close>

definition skill_year_entry :: "string \<Rightarrow> edu_record \<Rightarrow> skill_year_state \<Rightarrow> error + skill_year_state" where
  "skill_year_entry skill_category e s =
     (if truthy (scalar_get_default (is_primary e) (PBool False)) then
        (let grad_year = scalar_get (end_year e) in
         if py_eq_int grad_year 2026 then
           bind (dict_incr (grad_year_2026_categories s) skill_category) (\<lambda>d.
             Inr (s\<lparr>grad_2026_count := grad_2026_count s + 1, grad_year_2026_categories := d\<rparr>))
         else if py_eq_int grad_year 2027 then
           bind (dict_incr (grad_year_2027_categories s) skill_category) (\<lambda>d.
             Inr (s\<lparr>grad_2027_count := grad_2027_count s + 1, grad_year_2027_categories := d\<rparr>))
         else Inr s)
      else Inr s)"

text \<open>The body of \<open>for student in collection.find(...)\<close>.\<close>

definition skill_year_student :: "student \<Rightarrow> skill_year_state \<Rightarrow> error + skill_year_state" where
  "skill_year_student st s =
     bind (get_skills_count st) (\<lambda>skills_count.
     let skill_category = skills_category skills_count in
     bind (dict_incr (sy_skill_categories s) skill_category) (\<lambda>d.
     bind (py_iter (dict_get_default (education_records st) [])) (\<lambda>rs.
     bind (fold_raise (skill_year_entry skill_category) rs (s\<lparr>sy_skill_categories := d\<rparr>)) (\<lambda>s'.
     Inr (s'\<lparr>sy_processed_count := sy_processed_count s' + 1\<rparr>)))))"

definition skill_year_initial :: skill_year_state where
  "skill_year_initial =
     \<lparr>sy_skill_categories = skill_categories, grad_year_2026_categories = skill_categories,
      grad_year_2027_categories = skill_categories, sy_processed_count = 0,
      grad_2026_count = 0, grad_2027_count = 0\<rparr>"

text \<open>The loop of \<open>main\<close> over the documents of the collection.\<close>

definition skill_year_loop :: "student list \<Rightarrow> error + skill_year_state" where
  "skill_year_loop students = fold_raise skill_year_student students skill_year_initial"

text \<open>
  The summary of \<open>main\<close>: the overall percentages \<open>(count / processed_count) * 100\<close> are
  computed with no test of the denominator; those of the 2026 and of the 2027 graduates
  are computed only \<open>if grad_2026_count > 0\<close> and \<open>if grad_2027_count > 0\<close>. \<open>main\<close>
  returns the counters and the percentages it logs.
\<close>

record skill_year_summary =
  sy_counters :: skill_year_state
  sy_overall_percentages :: "(string \<times> rat) list"
  sy_2026_percentages :: "(string \<times> rat) list"
  sy_2027_percentages :: "(string \<times> rat) list"

definition skill_year_main :: "student list \<Rightarrow> error + skill_year_summary" where
  "skill_year_main students =
     bind (skill_year_loop students) (\<lambda>s.
     bind (map_raise (percentage_of (sy_processed_count s)) (sy_skill_categories s)) (\<lambda>overall.
     bind (if 0 < grad_2026_count s
           then map_raise (percentage_of (grad_2026_count s)) (grad_year_2026_categories s)
           else Inr []) (\<lambda>p2026.
     bind (if 0 < grad_2027_count s
           then map_raise (percentage_of (grad_2027_count s)) (grad_year_2027_categories s)
           else Inr []) (\<lambda>p2027.
     Inr \<lparr>sy_counters = s, sy_overall_percentages = overall,
          sy_2026_percentages = p2026, sy_2027_percentages = p2027\<rparr>))))"

section \<open>The analyzers in closed form\<close>

text \<open>
  What \<open>analyze_student_record\<close> of counts.py and of college\_counts.py return, written
  without the exception plumbing. The lemmas \<open>counts_analyze_total\<close> and
  \<open>college_counts_analyze_total\<close> below prove that the analyzers return exactly these.
\<close>

definition counts_row :: "student \<Rightarrow> counts_result" where
  "counts_row st =
     \<lparr>r_projects = have_or_not (field_items (projects st) \<noteq> []),
      r_work_experience = have_or_not (field_items (work_experiences st) \<noteq> []),
      r_achievements =
        have_or_not (field_items (achievements st) \<noteq> [] \<or> field_items (awards st) \<noteq> []),
      r_skills = have_or_not (field_items (skills st) \<noteq> []),
      r_grade = have_or_not (performance_scan (field_items (education_records st)))\<rparr>"

definition college_row :: "student \<Rightarrow> college_result" where
  "college_row st =
     \<lparr>cr_college_name =
        (case college_scan (field_items (education_records st)) of
           Some c \<Rightarrow> c | None \<Rightarrow> ''Unknown''),
      cr_has_projects = (field_items (projects st) \<noteq> []),
      cr_has_experience = (field_items (work_experiences st) \<noteq> []),
      cr_has_achievements =
        (field_items (achievements st) \<noteq> [] \<or> field_items (awards st) \<noteq> []),
      cr_has_skills = (field_items (skills st) \<noteq> []),
      cr_has_grade = performance_scan (field_items (education_records st))\<rparr>"

section \<open>Example documents\<close>

text \<open>A primary education entry with the given college name and end year.\<close>

definition primary_entry :: "string dict_value \<Rightarrow> pyval option \<Rightarrow> edu_record" where
  "primary_entry college y =
     \<lparr>is_primary = Some (PBool True), college_name = college, performance = None, end_year = y\<rparr>"

text \<open>A student with the given education entries and no other key.\<close>

definition student_with :: "edu_record list \<Rightarrow> student" where
  "student_with rs =
     \<lparr>student_id = ''s1'', skills = Absent, projects = Absent, work_experiences = Absent,
      achievements = Absent, awards = Absent, education_records = Val rs\<rparr>"

text \<open>A student whose \<open>education_records\<close> key holds a stored null.\<close>

definition null_education_student :: student where
  "null_education_student = (student_with [])\<lparr>education_records := Null\<rparr>"

section \<open>Strings of the importer (skill\_from\_resume.py)\<close>

text \<open>
  A \<open>char\<close> is a code point below 256. On these, \<open>str.strip()\<close> removes the code points
  9 to 13, 28 to 32, 133 and 160 from both ends, and \<open>str.lower()\<close> adds 32 to the
  capital letters: 65 to 90, 192 to 214 and 216 to 222. Strings with code points from 256
  on are outside the model.
\<close>

definition py_isspace :: "char \<Rightarrow> bool" where
  "py_isspace c = ((of_char c :: nat) \<in> {9, 10, 11, 12, 13, 28, 29, 30, 31, 32, 133, 160})"

definition py_strip :: "string \<Rightarrow> string" where
  "py_strip s = rev (dropWhile py_isspace (rev (dropWhile py_isspace s)))"

definition is_upper :: "char \<Rightarrow> bool" where
  "is_upper c =
     (let n = (of_char c :: nat) in
      (65 \<le> n \<and> n \<le> 90) \<or> (192 \<le> n \<and> n \<le> 214) \<or> (216 \<le> n \<and> n \<le> 222))"

definition lower_char :: "char \<Rightarrow> char" where
  "lower_char c = (if is_upper c then char_of ((of_char c :: nat) + 32) else c)"

definition py_lower :: "string \<Rightarrow> string" where
  "py_lower s = map lower_char s"

text \<open>\<open>s.split(sep)\<close> for a separator of one character: the empty string gives \<open>['']\<close>.\<close>

fun py_split :: "char \<Rightarrow> string \<Rightarrow> string list" where
  "py_split sep [] = [[]]"
| "py_split sep (c # cs) =
     (if c = sep then [] # py_split sep cs
      else (case py_split sep cs of t # ts \<Rightarrow> (c # t) # ts | [] \<Rightarrow> [[c]]))"

section \<open>Rows of the CSV file and the store\<close>

text \<open>
  A cell of the data frame that \<open>pd.read_csv\<close> returns: a missing value (NaN), a string,
  or a number when the whole column parsed as numbers. Both columns \<open>student_id\<close> and
  \<open>skills\<close> are present in the file.
\<close>

datatype cell = NaN | Str string | Num rat

record csv_row =
  row_student_id :: cell
  row_skills :: cell

text \<open>\<open>pd.isna(x)\<close>.\<close>

fun isna :: "cell \<Rightarrow> bool" where
  "isna NaN = True"
| "isna c = False"

text \<open>\<open>x.strip()\<close> and \<open>x.split(',')\<close>: a float has neither method (AttributeError).\<close>

fun cell_strip :: "cell \<Rightarrow> error + string" where
  "cell_strip (Str s) = Inr (py_strip s)"
| "cell_strip c = Inl AttributeError"

fun cell_split :: "cell \<Rightarrow> error + string list" where
  "cell_split (Str s) = Inr (py_split CHR '','' s)"
| "cell_split c = Inl AttributeError"

text \<open>
  The store: documents by key. \<open>update_one({"_id": k}, {"$set": {"skills": a}})\<close> replaces
  the skills of the document with key \<open>k\<close>; its \<open>modified_count\<close> is 1 when a document
  matched and changed, 0 when none matched or the matching document already held \<open>a\<close>.
\<close>

definition update_one :: "('k \<rightharpoonup> student) \<Rightarrow> 'k \<Rightarrow> skill_obj list \<Rightarrow> int \<times> ('k \<rightharpoonup> student)" where
  "update_one store k skills_array =
     (case store k of
        None \<Rightarrow> (0, store)
      | Some doc \<Rightarrow>
          if skills doc = Val skills_array then (0, store)
          else (1, store(k \<mapsto> doc\<lparr>skills := Val skills_array\<rparr>)))"

text \<open>
  The driver's call \<open>collection.update_one\<close> either answers or raises (a lost connection,
  a server error; \<open>PyMongoError\<close>). It belongs to the driver, not to the repository, and
  is a parameter of the importer: given the store, the key and the new skills, it returns
  the exception, or \<open>modified_count\<close> and the store after the update. \<open>answering_store\<close>
  is the driver that always answers.
\<close>

type_synonym 'k update_op =
  "('k \<rightharpoonup> student) \<Rightarrow> 'k \<Rightarrow> skill_obj list \<Rightarrow> error + int \<times> ('k \<rightharpoonup> student)"

definition answering_store :: "'k update_op" where
  "answering_store store k skills_array = Inr (update_one store k skills_array)"

record 'k importer_state =
  update_count :: int
  error_count :: int
  db :: "'k \<rightharpoonup> student"

section \<open>The bulk skill importer (skill\_from\_resume.py)\<close>

text \<open>\<open>pd.isna(skills_string) or not skills_string.strip()\<close>.\<close>

definition no_skills_data :: "cell \<Rightarrow> error + bool" where
  "no_skills_data skills_string =
     (if isna skills_string then Inr True
      else bind (cell_strip skills_string) (\<lambda>t. Inr (t = [])))"

text \<open>\<open>[skill.strip() for skill in skills_string.split(',') if skill.strip()]\<close>.\<close>

definition skill_names :: "cell \<Rightarrow> error + string list" where
  "skill_names skills_string =
     bind (cell_split skills_string) (\<lambda>tokens.
       Inr (map py_strip (filter (\<lambda>skill. py_strip skill \<noteq> []) tokens)))"

definition skill_entry :: "string \<Rightarrow> skill_obj" where
  "skill_entry skill_name =
     \<lparr>name = py_lower skill_name, rating = 2, composite = PNone, versions = []\<rparr>"

definition skills_array :: "cell \<Rightarrow> error + skill_obj list" where
  "skills_array skills_string =
     bind (skill_names skills_string) (\<lambda>names. Inr (map skill_entry names))"

text \<open>
  The body of the inner \<open>try\<close>. \<open>ObjectId\<close> belongs to the driver, not to the repository:
  it is the parameter \<open>object_id\<close>, which returns a key or raises. \<open>continue\<close> leaves the
  state as it is.
\<close>

definition row_body_with :: "'k update_op \<Rightarrow> (cell \<Rightarrow> error + 'k) \<Rightarrow> csv_row \<Rightarrow> 'k importer_state \<Rightarrow> error + 'k importer_state" where
  "row_body_with update object_id row st =
     bind (no_skills_data (row_skills row)) (\<lambda>skip.
       if skip then Inr st
       else
         bind (skills_array (row_skills row)) (\<lambda>arr.
         bind (object_id (row_student_id row)) (\<lambda>k.
         bind (update (db st) k arr) (\<lambda>result.
           case result of
             (modified_count, store') \<Rightarrow>
               if 0 < modified_count
               then Inr (st\<lparr>update_count := update_count st + 1, db := store'\<rparr>)
               else Inr (st\<lparr>db := store'\<rparr>)))))"

text \<open>The \<open>try\<close> with its \<open>except Exception\<close>: an exception of the body adds one error.\<close>

definition process_row_with :: "'k update_op \<Rightarrow> (cell \<Rightarrow> error + 'k) \<Rightarrow> csv_row \<Rightarrow> 'k importer_state \<Rightarrow> 'k importer_state" where
  "process_row_with update object_id row st =
     (case row_body_with update object_id row st of
        Inr st' \<Rightarrow> st'
      | Inl e \<Rightarrow> st\<lparr>error_count := error_count st + 1\<rparr>)"

text \<open>
  The loop over the rows; the result holds the two counts of the final message and the
  store.
\<close>

definition process_skills_csv_to_mongodb_with :: "'k update_op \<Rightarrow> (cell \<Rightarrow> error + 'k) \<Rightarrow> csv_row list \<Rightarrow> ('k \<rightharpoonup> student) \<Rightarrow> 'k importer_state" where
  "process_skills_csv_to_mongodb_with update object_id rows store =
     fold (process_row_with update object_id) rows
       \<lparr>update_count = 0, error_count = 0, db = store\<rparr>"

text \<open>The importer on the driver that always answers.\<close>

abbreviation row_body :: "(cell \<Rightarrow> error + 'k) \<Rightarrow> csv_row \<Rightarrow> 'k importer_state \<Rightarrow> error + 'k importer_state" where
  "row_body \<equiv> row_body_with answering_store"

abbreviation process_row :: "(cell \<Rightarrow> error + 'k) \<Rightarrow> csv_row \<Rightarrow> 'k importer_state \<Rightarrow> 'k importer_state" where
  "process_row \<equiv> process_row_with answering_store"

abbreviation process_skills_csv_to_mongodb :: "(cell \<Rightarrow> error + 'k) \<Rightarrow> csv_row list \<Rightarrow> ('k \<rightharpoonup> student) \<Rightarrow> 'k importer_state" where
  "process_skills_csv_to_mongodb \<equiv> process_skills_csv_to_mongodb_with answering_store"

text \<open>\<open>sep.join(tokens)\<close>, to say what splitting is: the tokens joined again give the string.\<close>

fun py_join :: "char \<Rightarrow> string list \<Rightarrow> string" where
  "py_join sep [] = []"
| "py_join sep [t] = t"
| "py_join sep (t # u # ts) = t @ sep # py_join sep (u # ts)"

text \<open>What every entry of the imported skill list has, whatever the skill string was.\<close>

definition clean_entry :: "skill_obj \<Rightarrow> bool" where
  "clean_entry e =
     (name e \<noteq> [] \<and> \<not> py_isspace (hd (name e)) \<and> \<not> py_isspace (last (name e))
      \<and> CHR '','' \<notin> set (name e) \<and> \<not> list_ex is_upper (name e)
      \<and> rating e = 2 \<and> composite e = PNone \<and> versions e = [])"

section \<open>Rows of the importer, as the specification names them\<close>

text \<open>"The skills cell is missing or blank".\<close>

definition blank_skills :: "cell \<Rightarrow> bool" where
  "blank_skills c = (case c of NaN \<Rightarrow> True | Str s \<Rightarrow> py_strip s = [] | Num x \<Rightarrow> False)"

text \<open>
  "Processing the row fails": the skills cell is a number, which has no \<open>strip\<close>, or it is
  a string that is not blank and the identifier cannot be parsed.
\<close>

definition row_raises :: "(cell \<Rightarrow> error + 'k) \<Rightarrow> csv_row \<Rightarrow> bool" where
  "row_raises object_id row =
     (case row_skills row of
        NaN \<Rightarrow> False
      | Num x \<Rightarrow> True
      | Str s \<Rightarrow> py_strip s \<noteq> [] \<and> isl (object_id (row_student_id row)))"

text \<open>
  "The parsed identifier matches no record in the store": the row reaches the parse (its
  skills cell is a string that is not blank), the identifier parses, and the store has no
  document with that key.
\<close>

definition unmatched :: "(cell \<Rightarrow> error + 'k) \<Rightarrow> ('k \<rightharpoonup> student) \<Rightarrow> csv_row \<Rightarrow> bool" where
  "unmatched object_id store row =
     (case row_skills row of
        NaN \<Rightarrow> False
      | Num x \<Rightarrow> False
      | Str s \<Rightarrow> py_strip s \<noteq> []
          \<and> (case object_id (row_student_id row) of Inl e \<Rightarrow> False | Inr k \<Rightarrow> store k = None))"

definition skipped :: "(cell \<Rightarrow> error + 'k) \<Rightarrow> ('k \<rightharpoonup> student) \<Rightarrow> csv_row \<Rightarrow> bool" where
  "skipped object_id store row = (blank_skills (row_skills row) \<or> unmatched object_id store row)"

text \<open>
  What happens to a row, given the store at that moment: it is skipped (no skills data),
  it fails (an exception of the body), it is updated (\<open>modified_count > 0\<close>) or the
  update answers that it modified nothing.
\<close>

datatype outcome = Skipped | Failed | Updated | Unmodified

definition row_outcome :: "'k update_op \<Rightarrow> (cell \<Rightarrow> error + 'k) \<Rightarrow> ('k \<rightharpoonup> student) \<Rightarrow> csv_row \<Rightarrow> outcome" where
  "row_outcome update object_id store row =
     (case row_skills row of
        NaN \<Rightarrow> Skipped
      | Num x \<Rightarrow> Failed
      | Str s \<Rightarrow>
          if py_strip s = [] then Skipped
          else (case object_id (row_student_id row) of
                  Inl e \<Rightarrow> Failed
                | Inr k \<Rightarrow>
                    (case skills_array (Str s) of
                       Inl e \<Rightarrow> Failed
                     | Inr arr \<Rightarrow>
                         (case update store k arr of
                            Inl e \<Rightarrow> Failed
                          | Inr result \<Rightarrow> if 0 < fst result then Updated else Unmodified))))"

text \<open>The outcomes of the rows of a run, each on the store the rows before it left.\<close>

fun outcomes :: "'k update_op \<Rightarrow> (cell \<Rightarrow> error + 'k) \<Rightarrow> csv_row list \<Rightarrow> 'k importer_state \<Rightarrow> outcome list" where
  "outcomes update object_id [] st = []"
| "outcomes update object_id (r # rs) st =
     row_outcome update object_id (db st) r
       # outcomes update object_id rs (process_row_with update object_id r st)"

text \<open>
  An identifier parser for the examples: the strings of 24 hexadecimal digits are keys, any
  other string raises InvalidId, and a cell that is not a string raises TypeError.
\<close>

definition is_hex :: "char \<Rightarrow> bool" where
  "is_hex c = (c \<in> set ''0123456789abcdefABCDEF'')"

fun hex_object_id :: "cell \<Rightarrow> error + string" where
  "hex_object_id (Str s) =
     (if length s = 24 \<and> list_all is_hex s then Inr (py_lower s) else Inl InvalidId)"
| "hex_object_id c = Inl TypeError"

definition example_rows :: "csv_row list" where
  "example_rows =
     [\<lparr>row_student_id = Str ''not-an-id'', row_skills = Str ''Python, SQL''\<rparr>,
      \<lparr>row_student_id = Str ''0123456789abcdef01234567'', row_skills = NaN\<rparr>,
      \<lparr>row_student_id = Str ''0123456789abcdef01234567'', row_skills = Str ''Go''\<rparr>,
      \<lparr>row_student_id = Str ''ffffffffffffffffffffffff'', row_skills = Str ''Go''\<rparr>]"

definition example_store :: "string \<rightharpoonup> student" where
  "example_store = [''0123456789abcdef01234567'' \<mapsto> student_with []]"

section \<open>Skill bands: the five labels partition the counts\<close>

lemma get_skills_count_total:
  "get_skills_count st = Inr (int (length (field_items (skills st))))"
  by (cases "skills st") (simp_all add: get_skills_count_def field_items_def Let_def)

lemma skill_main_body_one_label:
  "\<exists>cs. skill_main_body st (skill_categories, k) = Inr (cs, k + 1)
      \<and> map fst cs = map fst skill_categories
      \<and> sum_list (map snd cs) = 1
      \<and> (skills_category (int (length (field_items (skills st)))), 1) \<in> set cs"
  by (simp add: skill_main_body_def get_skills_count_total skills_category_def
        skill_categories_def)

text \<open>
  C1. For every skill count \<open>n \<ge> 0\<close> the classifier returns one of the five labels, and
  each label is returned exactly on its band: 0, 1 to 3, 4 to 6, 7 to 10, and 11 or more.
  The bands are pairwise disjoint and cover every non-negative count. At the boundaries,
  3 is "1-3 skills", 4 is "4-6 skills", 10 is "7-10 skills" and 11 is "10+ skills".
  The count of every student record is a non-negative integer \<open>m\<close>; college\_skill.py
  labels the record with the band of \<open>m\<close>, and the loop body of skill.py, started on the
  zero counters, adds one to the counter of that band and to no other.
\<close>

theorem skills_category_partition:
  assumes "0 \<le> n"
  shows "skills_category n \<in> {''0 skills'', ''1-3 skills'', ''4-6 skills'', ''7-10 skills'', ''10+ skills''}
    \<and> (skills_category n = ''0 skills'' \<longleftrightarrow> n = 0)
    \<and> (skills_category n = ''1-3 skills'' \<longleftrightarrow> 1 \<le> n \<and> n \<le> 3)
    \<and> (skills_category n = ''4-6 skills'' \<longleftrightarrow> 4 \<le> n \<and> n \<le> 6)
    \<and> (skills_category n = ''7-10 skills'' \<longleftrightarrow> 7 \<le> n \<and> n \<le> 10)
    \<and> (skills_category n = ''10+ skills'' \<longleftrightarrow> 11 \<le> n)
    \<and> skills_category 3 = ''1-3 skills''
    \<and> skills_category 4 = ''4-6 skills''
    \<and> skills_category 10 = ''7-10 skills''
    \<and> skills_category 11 = ''10+ skills''
    \<and> (\<exists>m. 0 \<le> m \<and> get_skills_count st = Inr m
          \<and> college_skill_analyze_student_record st =
              bind (get_college_name st) (\<lambda>cn.
                Inr \<lparr>sr_college_name = cn, sr_skills_count = m,
                     sr_skills_category = skills_category m\<rparr>)
          \<and> (\<exists>cs. skill_main_body st (skill_categories, k) = Inr (cs, k + 1)
                \<and> map fst cs = map fst skill_categories
                \<and> sum_list (map snd cs) = 1
                \<and> (skills_category m, 1) \<in> set cs))"
proof -
  have bands: "skills_category n \<in> {''0 skills'', ''1-3 skills'', ''4-6 skills'', ''7-10 skills'', ''10+ skills''}
    \<and> (skills_category n = ''0 skills'' \<longleftrightarrow> n = 0)
    \<and> (skills_category n = ''1-3 skills'' \<longleftrightarrow> 1 \<le> n \<and> n \<le> 3)
    \<and> (skills_category n = ''4-6 skills'' \<longleftrightarrow> 4 \<le> n \<and> n \<le> 6)
    \<and> (skills_category n = ''7-10 skills'' \<longleftrightarrow> 7 \<le> n \<and> n \<le> 10)
    \<and> (skills_category n = ''10+ skills'' \<longleftrightarrow> 11 \<le> n)
    \<and> skills_category 3 = ''1-3 skills''
    \<and> skills_category 4 = ''4-6 skills''
    \<and> skills_category 10 = ''7-10 skills''
    \<and> skills_category 11 = ''10+ skills''"
    using assms by (auto simp: skills_category_def)
  let ?m = "int (length (field_items (skills st)))"
  have counted: "0 \<le> ?m \<and> get_skills_count st = Inr ?m
          \<and> college_skill_analyze_student_record st =
              bind (get_college_name st) (\<lambda>cn.
                Inr \<lparr>sr_college_name = cn, sr_skills_count = ?m,
                     sr_skills_category = skills_category ?m\<rparr>)
          \<and> (\<exists>cs. skill_main_body st (skill_categories, k) = Inr (cs, k + 1)
                \<and> map fst cs = map fst skill_categories
                \<and> sum_list (map snd cs) = 1
                \<and> (skills_category ?m, 1) \<in> set cs)"
    using skill_main_body_one_label [of st k]
    by (simp add: get_skills_count_total college_skill_analyze_student_record_def)
  from bands counted show ?thesis by blast
qed

theorem skills_category_partition_witness:
  "(0::int) \<le> 5 \<and> skills_category 5 = ''4-6 skills'' \<and> skills_category 5 \<noteq> ''1-3 skills''"
  using skills_category_partition [where n = 5] by simp

section \<open>The classifiers never raise\<close>

lemma has_nonempty_total: "has_nonempty f = Inr (field_items f \<noteq> [])"
  by (cases f) (simp_all add: has_nonempty_def field_items_def)

lemma has_no_skills_total: "has_no_skills st = Inr (field_items (skills st) = [])"
  by (cases "skills st") (simp_all add: has_no_skills_def field_items_def)

lemma get_college_name_total:
  "get_college_name st =
     Inr (case college_scan (field_items (education_records st)) of Some c \<Rightarrow> c | None \<Rightarrow> ''Unknown'')"
  by (cases "education_records st")
     (auto simp: get_college_name_def field_items_def split: option.splits)

lemma has_performance_total:
  "has_performance st = Inr (performance_scan (field_items (education_records st)))"
  by (cases "education_records st") (auto simp: has_performance_def field_items_def)

section \<open>The college name is that of the first primary entry that has one\<close>

lemma is_True_iff: "is_True v \<longleftrightarrow> v = PBool True"
  by (cases v) auto

lemma primary_with_college_code:
  "is_True (scalar_get (is_primary r)) \<and> truthy_list (dict_get (college_name r))
     \<longleftrightarrow> primary_with_college r"
  by (cases "college_name r") (simp_all add: primary_with_college_def is_True_iff)

lemma college_scan_find:
  "college_scan rs =
     (case find primary_with_college rs of None \<Rightarrow> None | Some r \<Rightarrow> dict_get (college_name r))"
  by (induction rs) (simp_all add: primary_with_college_code)

text \<open>
  C2, as amended. For every student record, \<open>get_college_name\<close> returns the college name
  of the first education entry, in stored order, that has \<open>is_primary\<close> equal to true and
  a non-empty college name, and the sentinel "Unknown" when no entry has both. So it
  returns "Unknown" if and only if no entry has both, or the first entry that has both is
  itself named "Unknown".
\<close>

theorem get_college_name_first_primary:
  "(find primary_with_college (field_items (education_records st)) = None
      \<longrightarrow> get_college_name st = Inr ''Unknown'')
   \<and> (\<forall>r. find primary_with_college (field_items (education_records st)) = Some r
      \<longrightarrow> (\<exists>c. college_name r = Val c \<and> c \<noteq> [] \<and> get_college_name st = Inr c))
   \<and> (get_college_name st = Inr ''Unknown'' \<longleftrightarrow>
        find primary_with_college (field_items (education_records st)) = None
        \<or> (\<exists>r. find primary_with_college (field_items (education_records st)) = Some r
              \<and> college_name r = Val ''Unknown''))"
proof -
  let ?f = "find primary_with_college (field_items (education_records st))"
  show ?thesis
  proof (cases ?f)
    case None
    then show ?thesis by (simp add: get_college_name_total college_scan_find)
  next
    case (Some r)
    then have "primary_with_college r" by (auto simp: find_Some_iff)
    then obtain c where c: "college_name r = Val c" "c \<noteq> []"
      by (auto simp: primary_with_college_def split: dict_value.splits)
    with Some show ?thesis by (simp add: get_college_name_total college_scan_find)
  qed
qed

theorem get_college_name_first_primary_witness:
  "find primary_with_college (field_items (education_records unknown_college_student))
     = Some unknown_college_entry
   \<and> get_college_name unknown_college_student = Inr ''Unknown''"
  using get_college_name_first_primary [of unknown_college_student]
  by (simp add: unknown_college_student_def unknown_college_entry_def field_items_def
        primary_with_college_def)

text \<open>
  C2 as stated fails: a student whose primary entry names the college "Unknown" is
  classified "Unknown", although an entry has both \<open>is_primary\<close> equal to true and a
  non-empty college name.
\<close>

theorem get_college_name_unknown_counterexample:
  "education_records unknown_college_student = Val [unknown_college_entry]
   \<and> is_primary unknown_college_entry = Some (PBool True)
   \<and> college_name unknown_college_entry = Val ''Unknown''
   \<and> get_college_name unknown_college_student = Inr ''Unknown''"
  by (simp add: get_college_name_def unknown_college_student_def unknown_college_entry_def)

section \<open>Absent, null and empty collections classify alike\<close>

lemma college_counts_analyze_total:
  "college_counts_analyze_student_record st =
     Inr \<lparr>cr_college_name =
            (case college_scan (field_items (education_records st)) of
               Some c \<Rightarrow> c | None \<Rightarrow> ''Unknown''),
          cr_has_projects = (field_items (projects st) \<noteq> []),
          cr_has_experience = (field_items (work_experiences st) \<noteq> []),
          cr_has_achievements =
            (field_items (achievements st) \<noteq> [] \<or> field_items (awards st) \<noteq> []),
          cr_has_skills = (field_items (skills st) \<noteq> []),
          cr_has_grade = performance_scan (field_items (education_records st))\<rparr>"
  by (simp add: college_counts_analyze_student_record_def get_college_name_total
        has_nonempty_total has_performance_total)

lemma no_skill_student_total:
  "no_skill_student rd st c =
     Inr (if field_items (skills st) = [] then
            \<lparr>no_skills_with_education =
                no_skills_with_education c + (if field_items (education_records st) \<noteq> [] then 1 else 0),
             no_skills_with_projects =
                no_skills_with_projects c + (if field_items (projects st) \<noteq> [] then 1 else 0),
             no_skills_with_work_exp =
                no_skills_with_work_exp c + (if field_items (work_experiences st) \<noteq> [] then 1 else 0),
             no_skills_with_resume =
                no_skills_with_resume c + (if rd (student_id st) \<noteq> None then 1 else 0)\<rparr>
          else c)"
  by (simp add: no_skill_student_def has_no_skills_total has_nonempty_total)

lemma fold_raise_total:
  assumes "\<And>x s. \<exists>s'. f x s = Inr s'"
  shows "\<exists>s'. fold_raise f xs s = Inr s'"
proof (induction xs arbitrary: s)
  case Nil
  show ?case by simp
next
  case (Cons x xs)
  obtain s1 where "f x s = Inr s1" using assms by blast
  with Cons show ?case by simp
qed

lemma no_skill_process_batch_total: "\<exists>c. no_skill_process_batch sts rd = Inr c"
  unfolding no_skill_process_batch_def
  by (rule fold_raise_total) (simp add: no_skill_student_total)

text \<open>
  For \<open>analyze_student_record\<close> of college\_counts.py and the loop body and
  \<open>process_batch\<close> of no\_skill.py, which test a collection before they read it: setting
  any measured collection (skills, projects, work experiences, achievements, awards,
  education records) to an absent key, to null or to the empty list gives the same result,
  and on every student record the classification returns a result (no exception is
  raised).
\<close>

theorem absent_null_empty_same:
  "college_counts_analyze_student_record (st\<lparr>skills := Absent\<rparr>)
     = college_counts_analyze_student_record (st\<lparr>skills := Val []\<rparr>)
   \<and> college_counts_analyze_student_record (st\<lparr>skills := Null\<rparr>)
     = college_counts_analyze_student_record (st\<lparr>skills := Val []\<rparr>)
   \<and> college_counts_analyze_student_record (st\<lparr>projects := Absent\<rparr>)
     = college_counts_analyze_student_record (st\<lparr>projects := Val []\<rparr>)
   \<and> college_counts_analyze_student_record (st\<lparr>projects := Null\<rparr>)
     = college_counts_analyze_student_record (st\<lparr>projects := Val []\<rparr>)
   \<and> college_counts_analyze_student_record (st\<lparr>work_experiences := Absent\<rparr>)
     = college_counts_analyze_student_record (st\<lparr>work_experiences := Val []\<rparr>)
   \<and> college_counts_analyze_student_record (st\<lparr>work_experiences := Null\<rparr>)
     = college_counts_analyze_student_record (st\<lparr>work_experiences := Val []\<rparr>)
   \<and> college_counts_analyze_student_record (st\<lparr>achievements := Absent\<rparr>)
     = college_counts_analyze_student_record (st\<lparr>achievements := Val []\<rparr>)
   \<and> college_counts_analyze_student_record (st\<lparr>achievements := Null\<rparr>)
     = college_counts_analyze_student_record (st\<lparr>achievements := Val []\<rparr>)
   \<and> college_counts_analyze_student_record (st\<lparr>awards := Absent\<rparr>)
     = college_counts_analyze_student_record (st\<lparr>awards := Val []\<rparr>)
   \<and> college_counts_analyze_student_record (st\<lparr>awards := Null\<rparr>)
     = college_counts_analyze_student_record (st\<lparr>awards := Val []\<rparr>)
   \<and> college_counts_analyze_student_record (st\<lparr>education_records := Absent\<rparr>)
     = college_counts_analyze_student_record (st\<lparr>education_records := Val []\<rparr>)
   \<and> college_counts_analyze_student_record (st\<lparr>education_records := Null\<rparr>)
     = college_counts_analyze_student_record (st\<lparr>education_records := Val []\<rparr>)
   \<and> (\<exists>res. college_counts_analyze_student_record st = Inr res)
   \<and> no_skill_student rd (st\<lparr>skills := Absent\<rparr>) c = no_skill_student rd (st\<lparr>skills := Val []\<rparr>) c
   \<and> no_skill_student rd (st\<lparr>skills := Null\<rparr>) c = no_skill_student rd (st\<lparr>skills := Val []\<rparr>) c
   \<and> no_skill_student rd (st\<lparr>projects := Absent\<rparr>) c = no_skill_student rd (st\<lparr>projects := Val []\<rparr>) c
   \<and> no_skill_student rd (st\<lparr>projects := Null\<rparr>) c = no_skill_student rd (st\<lparr>projects := Val []\<rparr>) c
   \<and> no_skill_student rd (st\<lparr>work_experiences := Absent\<rparr>) c
     = no_skill_student rd (st\<lparr>work_experiences := Val []\<rparr>) c
   \<and> no_skill_student rd (st\<lparr>work_experiences := Null\<rparr>) c
     = no_skill_student rd (st\<lparr>work_experiences := Val []\<rparr>) c
   \<and> no_skill_student rd (st\<lparr>education_records := Absent\<rparr>) c
     = no_skill_student rd (st\<lparr>education_records := Val []\<rparr>) c
   \<and> no_skill_student rd (st\<lparr>education_records := Null\<rparr>) c
     = no_skill_student rd (st\<lparr>education_records := Val []\<rparr>) c
   \<and> (\<exists>c'. no_skill_student rd st c = Inr c')
   \<and> (\<exists>c'. no_skill_process_batch sts rd = Inr c')"
  using no_skill_process_batch_total [of sts rd]
  by (simp add: college_counts_analyze_total no_skill_student_total field_items_def)

theorem absent_null_empty_same_witness:
  "college_counts_analyze_student_record (unknown_college_student\<lparr>skills := Null\<rparr>)
     = Inr \<lparr>cr_college_name = ''Unknown'', cr_has_projects = False, cr_has_experience = False,
            cr_has_achievements = False, cr_has_skills = False, cr_has_grade = False\<rparr>"
proof -
  have "college_counts_analyze_student_record (unknown_college_student\<lparr>skills := Val []\<rparr>)
     = Inr \<lparr>cr_college_name = ''Unknown'', cr_has_projects = False, cr_has_experience = False,
            cr_has_achievements = False, cr_has_skills = False, cr_has_grade = False\<rparr>"
    by (simp add: college_counts_analyze_student_record_def get_college_name_def
          has_nonempty_def has_performance_def unknown_college_student_def unknown_college_entry_def)
  then show ?thesis
    using absent_null_empty_same [of unknown_college_student] by simp
qed

text \<open>
  C9. The equivalence of absent, null and empty holds in the classifiers above, and fails
  for the education records in education\_count.py and skill\_year.py, which iterate
  \<open>student.get('education_records', [])\<close> with no test: the default replaces an absent key
  only, so a stored null raises TypeError, where an absent key and an empty list leave the
  counters of the graduation years as they are. A run over a collection that holds such a
  document ends in that exception.
\<close>

theorem null_education_records_raises:
  "count_student (st\<lparr>education_records := Null\<rparr>) c = Inl TypeError
   \<and> count_student (st\<lparr>education_records := Absent\<rparr>) c = Inr c
   \<and> count_student (st\<lparr>education_records := Val []\<rparr>) c = Inr c
   \<and> skill_year_student (st\<lparr>education_records := Null\<rparr>) skill_year_initial = Inl TypeError
   \<and> (\<exists>s. skill_year_student (st\<lparr>education_records := Absent\<rparr>) skill_year_initial = Inr s
          \<and> skill_year_student (st\<lparr>education_records := Val []\<rparr>) skill_year_initial = Inr s)
   \<and> education_count_main [null_education_student] = Inl TypeError
   \<and> skill_year_main [null_education_student] = Inl TypeError"
proof -
  have count: "count_student (st\<lparr>education_records := Null\<rparr>) c = Inl TypeError
   \<and> count_student (st\<lparr>education_records := Absent\<rparr>) c = Inr c
   \<and> count_student (st\<lparr>education_records := Val []\<rparr>) c = Inr c"
    by (simp add: count_student_def)
  have year: "skill_year_student (st\<lparr>education_records := Null\<rparr>) skill_year_initial = Inl TypeError
   \<and> (\<exists>s. skill_year_student (st\<lparr>education_records := Absent\<rparr>) skill_year_initial = Inr s
          \<and> skill_year_student (st\<lparr>education_records := Val []\<rparr>) skill_year_initial = Inr s)"
    by (simp add: skill_year_student_def get_skills_count_total skills_category_def
          skill_year_initial_def skill_categories_def Let_def)
  have runs: "education_count_main [null_education_student] = Inl TypeError
   \<and> skill_year_main [null_education_student] = Inl TypeError"
    by (simp add: education_count_main_def education_count_process_batch_def count_student_def
          skill_year_main_def skill_year_loop_def skill_year_student_def get_skills_count_def
          skills_category_def skill_year_initial_def skill_categories_def
          null_education_student_def student_with_def Let_def)
  from count year runs show ?thesis by blast
qed

section \<open>Have and have-not counts add up to the total\<close>

lemma map_raise_total:
  assumes "\<And>x. f x = Inr (g x)"
  shows "map_raise f xs = Inr (map g xs)"
  by (induction xs) (simp_all add: assms)

lemma counts_analyze_total: "counts_analyze_student_record st = Inr (counts_row st)"
  by (simp add: counts_analyze_student_record_def counts_row_def has_nonempty_total
        has_performance_total)

lemma count_have_or_not:
  "int (count_list (map (\<lambda>x. have_or_not (P x)) xs) ''have'')
     + int (count_list (map (\<lambda>x. have_or_not (P x)) xs) ''have_not'') = int (length xs)"
  by (induction xs) (simp_all add: have_or_not_def)

lemma category_counts_sum:
  assumes "sts \<noteq> []" and "\<And>st. key (row st) = have_or_not (P st)"
  shows "\<exists>c. category_counts (map row sts) key = Inr c
           \<and> n_have c + n_have_not c = int (length sts)"
proof -
  have "key \<circ> row = (\<lambda>st. have_or_not (P st))"
    by (rule ext) (simp add: assms(2))
  then show ?thesis
    using assms(1) count_have_or_not [of P sts]
    by (simp add: category_counts_def df_column_def)
qed

lemma counts_main_sums:
  assumes "students \<noteq> []"
  shows "\<exists>st. counts_main students = Inr st
     \<and> total_processed st = int (length students)
     \<and> n_have (s_projects st) + n_have_not (s_projects st) = total_processed st
     \<and> n_have (s_work_experience st) + n_have_not (s_work_experience st) = total_processed st
     \<and> n_have (s_achievements st) + n_have_not (s_achievements st) = total_processed st
     \<and> n_have (s_skills st) + n_have_not (s_skills st) = total_processed st
     \<and> n_have (s_grade st) + n_have_not (s_grade st) = total_processed st"
proof -
  let ?df = "map counts_row students"
  have df: "map_raise counts_analyze_student_record students = Inr ?df"
    by (rule map_raise_total) (rule counts_analyze_total)
  obtain p where p: "category_counts ?df r_projects = Inr p"
      "n_have p + n_have_not p = int (length students)"
    using category_counts_sum [OF assms, of r_projects counts_row
        "\<lambda>st. field_items (projects st) \<noteq> []"]
    by (auto simp: counts_row_def)
  obtain w where w: "category_counts ?df r_work_experience = Inr w"
      "n_have w + n_have_not w = int (length students)"
    using category_counts_sum [OF assms, of r_work_experience counts_row
        "\<lambda>st. field_items (work_experiences st) \<noteq> []"]
    by (auto simp: counts_row_def)
  obtain a where a: "category_counts ?df r_achievements = Inr a"
      "n_have a + n_have_not a = int (length students)"
    using category_counts_sum [OF assms, of r_achievements counts_row
        "\<lambda>st. field_items (achievements st) \<noteq> [] \<or> field_items (awards st) \<noteq> []"]
    by (auto simp: counts_row_def)
  obtain s where s: "category_counts ?df r_skills = Inr s"
      "n_have s + n_have_not s = int (length students)"
    using category_counts_sum [OF assms, of r_skills counts_row
        "\<lambda>st. field_items (skills st) \<noteq> []"]
    by (auto simp: counts_row_def)
  obtain g where g: "category_counts ?df r_grade = Inr g"
      "n_have g + n_have_not g = int (length students)"
    using category_counts_sum [OF assms, of r_grade counts_row
        "\<lambda>st. performance_scan (field_items (education_records st))"]
    by (auto simp: counts_row_def)
  show ?thesis
    by (simp add: counts_main_def df p w a s g)
qed

lemma unique_distinct: "distinct (unique xs)"
  by (simp add: unique_def)

lemma unique_set: "set (unique xs) = set xs"
  by (simp add: unique_def)

lemma int_sum_list: "int (sum_list (map g xs)) = sum_list (map (\<lambda>x. int (g x)) xs)"
  by (induction xs) simp_all

lemma group_sizes_sum:
  "sum_list (map (\<lambda>c. int (length (filter (\<lambda>r. f r = c) df))) (unique (map f df)))
     = int (length df)"
proof -
  have "sum_list (map (\<lambda>c. length (filter (\<lambda>r. f r = c) df)) (unique (map f df)))
          = sum (\<lambda>c. length (filter (\<lambda>r. f r = c) df)) (set (map f df))"
    by (simp add: sum_list_distinct_conv_sum_set unique_distinct unique_set)
  also have "\<dots> = sum (count_list (map f df)) (set (map f df))"
    by (rule sum.cong) (simp_all add: count_list_eq_length_filter filter_map comp_def eq_commute)
  also have "\<dots> = length (map f df)"
    by (rule sum_count_set) simp_all
  finally have "sum_list (map (\<lambda>c. length (filter (\<lambda>r. f r = c) df)) (unique (map f df)))
          = length df" by simp
  then have "int (sum_list (map (\<lambda>c. length (filter (\<lambda>r. f r = c) df)) (unique (map f df))))
          = int (length df)" by simp
  then show ?thesis by (simp add: int_sum_list)
qed

lemma total_students_sum:
  "sum_list (map Total_Students (map (college_summary_row df) (unique (map cr_college_name df))))
     = int (length df)"
proof -
  have "map Total_Students (map (college_summary_row df) cs)
          = map (\<lambda>c. int (length (filter (\<lambda>r. cr_college_name r = c) df))) cs" for cs
    by (simp add: college_summary_row_def Let_def)
  then show ?thesis
    using group_sizes_sum [of cr_college_name df] by (simp only:)
qed

lemma college_summary_row_sums:
  "Have_Projects (college_summary_row df c) + No_Projects (college_summary_row df c)
     = Total_Students (college_summary_row df c)
   \<and> Have_Experience (college_summary_row df c) + No_Experience (college_summary_row df c)
     = Total_Students (college_summary_row df c)
   \<and> Have_Achievements (college_summary_row df c) + No_Achievements (college_summary_row df c)
     = Total_Students (college_summary_row df c)
   \<and> Have_Skills (college_summary_row df c) + No_Skills (college_summary_row df c)
     = Total_Students (college_summary_row df c)
   \<and> Have_Grade (college_summary_row df c) + No_Grade (college_summary_row df c)
     = Total_Students (college_summary_row df c)"
  by (simp add: college_summary_row_def Let_def)

lemma college_counts_main_sums:
  assumes "students \<noteq> []"
  shows "\<exists>rows. college_counts_main students = Inr rows
     \<and> sum_list (map Total_Students rows) = int (length students)
     \<and> list_all (\<lambda>row.
          Have_Projects row + No_Projects row = Total_Students row
          \<and> Have_Experience row + No_Experience row = Total_Students row
          \<and> Have_Achievements row + No_Achievements row = Total_Students row
          \<and> Have_Skills row + No_Skills row = Total_Students row
          \<and> Have_Grade row + No_Grade row = Total_Students row) rows"
proof -
  let ?df = "map college_row students"
  have df: "map_raise college_counts_analyze_student_record students = Inr ?df"
    by (rule map_raise_total) (simp add: college_counts_analyze_total college_row_def)
  let ?rows = "map (college_summary_row ?df) (unique (map cr_college_name ?df))"
  have main: "college_counts_main students = Inr ?rows"
    using assms by (simp add: college_counts_main_def df df_column_def del: map_map)
  have tot: "sum_list (map Total_Students ?rows) = int (length students)"
    using total_students_sum [of ?df] by simp
  have "list_all (\<lambda>row.
          Have_Projects row + No_Projects row = Total_Students row
          \<and> Have_Experience row + No_Experience row = Total_Students row
          \<and> Have_Achievements row + No_Achievements row = Total_Students row
          \<and> Have_Skills row + No_Skills row = Total_Students row
          \<and> Have_Grade row + No_Grade row = Total_Students row) ?rows"
    unfolding list_all_iff using college_summary_row_sums by auto
  with main tot show ?thesis by blast
qed

text \<open>
  On every non-empty list of student records, and for each of the five binary features
  (projects, experience, achievements, skills, grade): counts.py returns totals whose
  "have" and "have\_not" counts add up to \<open>total_processed\<close>, the number of records;
  college\_counts.py returns rows in each of which the "Have" and "No" counts add up to the
  row's "Total Students", and the "Total Students" of all rows add up to the number of
  records.
\<close>

theorem have_plus_have_not_is_total:
  assumes "students \<noteq> []"
  shows "(\<exists>st. counts_main students = Inr st
       \<and> total_processed st = int (length students)
       \<and> n_have (s_projects st) + n_have_not (s_projects st) = total_processed st
       \<and> n_have (s_work_experience st) + n_have_not (s_work_experience st) = total_processed st
       \<and> n_have (s_achievements st) + n_have_not (s_achievements st) = total_processed st
       \<and> n_have (s_skills st) + n_have_not (s_skills st) = total_processed st
       \<and> n_have (s_grade st) + n_have_not (s_grade st) = total_processed st)
   \<and> (\<exists>rows. college_counts_main students = Inr rows
       \<and> sum_list (map Total_Students rows) = int (length students)
       \<and> list_all (\<lambda>row.
            Have_Projects row + No_Projects row = Total_Students row
            \<and> Have_Experience row + No_Experience row = Total_Students row
            \<and> Have_Achievements row + No_Achievements row = Total_Students row
            \<and> Have_Skills row + No_Skills row = Total_Students row
            \<and> Have_Grade row + No_Grade row = Total_Students row) rows)"
  using counts_main_sums [OF assms] college_counts_main_sums [OF assms] by simp

theorem have_plus_have_not_is_total_witness:
  "[unknown_college_student] \<noteq> []
   \<and> (\<exists>st. counts_main [unknown_college_student] = Inr st
         \<and> total_processed st = 1
         \<and> n_have (s_skills st) + n_have_not (s_skills st) = 1)"
proof -
  have ne: "[unknown_college_student] \<noteq> []" by simp
  from have_plus_have_not_is_total [OF ne] show ?thesis by auto
qed

text \<open>
  C3. The sums above are what the claim states for a non-empty input. On the empty input
  the claim asks for all-zero totals and no exception, and both scripts raise instead: the
  data frame built from no results has no columns, and the first column lookup of
  \<open>main\<close> raises KeyError, so no totals are produced.
\<close>

theorem empty_input_raises_key_error:
  "counts_main [] = Inl KeyError \<and> college_counts_main [] = Inl KeyError"
  by (simp add: counts_main_def category_counts_def college_counts_main_def df_column_def)

section \<open>Percentages of a run over no records\<close>

text \<open>
  C6. On an empty collection \<open>main\<close> of skill.py, of no\_skill.py and of skill\_year.py
  reach their percentage lines with a zero denominator and raise ZeroDivisionError, while
  \<open>main\<close> of education\_count.py, whose \<open>safe_percentage\<close> tests the denominator, returns
  its summary with every percentage 0.
\<close>

theorem zero_record_run_divides_by_zero:
  "skill_main [] = Inl ZeroDivisionError
   \<and> no_skill_main [] resume_dict = Inl ZeroDivisionError
   \<and> skill_year_main [] = Inl ZeroDivisionError
   \<and> safe_percentage num 0 = 0
   \<and> education_count_main [] =
       Inr \<lparr>es_counts = zero_year_counts, es_no_education_records_count = 0,
            es_percentages = [0, 0, 0, 0, 0, 0]\<rparr>"
  by (simp add: skill_main_def skill_categories_def percentage_of_def py_truediv_def
        no_skill_main_def education_count_main_def safe_percentage_def zero_year_counts_def
        skill_year_main_def skill_year_loop_def skill_year_initial_def)

section \<open>Buckets of the graduation year\<close>

lemma py_eq_int_exclusive: "py_eq_int y 2026 \<Longrightarrow> \<not> py_eq_int y 2027"
  by (cases y) (auto split: if_splits)

lemma special_case_total:
  "special_case y = Inr (\<not> (\<exists>i. y = PInt i \<and> 2023 \<le> i \<and> i \<le> 2027))"
  by (cases y) (auto simp: special_case_def)

lemma dict_incr_total:
  "k \<in> fst ` set d \<Longrightarrow> \<exists>d'. dict_incr d k = Inr d' \<and> map fst d' = map fst d"
proof (induction d)
  case Nil
  then show ?case by simp
next
  case (Cons kv d)
  show ?case
  proof (cases "fst kv = k")
    case True
    then show ?thesis by simp
  next
    case False
    with Cons.prems have "k \<in> fst ` set d" by auto
    then obtain d' where "dict_incr d k = Inr d'" "map fst d' = map fst d"
      using Cons.IH by blast
    with False show ?thesis by simp
  qed
qed

text \<open>
  C4, as amended. For every education entry whose \<open>is_primary\<close> is true, whatever its
  end year holds:

  \<^item> education\_count.py never raises and changes at most one counter, by one: "2026" when
    the end year equals 2026, "2027" when it equals 2027, none when it is one of the
    integers 2023, 2024, 2025, and the special counter in every other case (null, a
    non-integer, an integer below 2023 or above 2027);
  \<^item> skill\_year.py, on counters that hold the skill band as a key, counts the entry under
    2026 or under 2027 when the end year equals that year, and leaves every counter as it
    is otherwise: it has no special bucket.
\<close>

theorem end_year_bucket:
  assumes "truthy (scalar_get_default (is_primary e) (PBool False))"
    and "band \<in> fst ` set (grad_year_2026_categories s)"
    and "band \<in> fst ` set (grad_year_2027_categories s)"
  shows "(\<exists>c'. count_entry e (hp, c) = Inr (True, c')
        \<and> c' = (if py_eq_int (scalar_get (end_year e)) 2026 then c\<lparr>c2026 := c2026 c + 1\<rparr>
               else if py_eq_int (scalar_get (end_year e)) 2027 then c\<lparr>c2027 := c2027 c + 1\<rparr>
               else if scalar_get (end_year e) \<in> {PInt 2023, PInt 2024, PInt 2025} then c
               else c\<lparr>special_count := special_count c + 1\<rparr>))
   \<and> (\<exists>s'. skill_year_entry band e s = Inr s'
        \<and> grad_2026_count s' =
            grad_2026_count s + (if py_eq_int (scalar_get (end_year e)) 2026 then 1 else 0)
        \<and> grad_2027_count s' =
            grad_2027_count s + (if py_eq_int (scalar_get (end_year e)) 2027 then 1 else 0)
        \<and> (if py_eq_int (scalar_get (end_year e)) 2026 \<or> py_eq_int (scalar_get (end_year e)) 2027
            then sy_skill_categories s' = sy_skill_categories s
            else s' = s))"
proof -
  let ?y = "scalar_get (end_year e)"
  have sp: "special_case ?y = Inr (\<not> (\<exists>i. ?y = PInt i \<and> 2023 \<le> i \<and> i \<le> 2027))"
    by (rule special_case_total)
  have mid: "(\<exists>i. ?y = PInt i \<and> 2023 \<le> i \<and> i \<le> 2027) \<longleftrightarrow>
        ?y \<in> {PInt 2023, PInt 2024, PInt 2025}"
    if "\<not> py_eq_int ?y 2026" "\<not> py_eq_int ?y 2027"
  proof
    assume "\<exists>i. ?y = PInt i \<and> 2023 \<le> i \<and> i \<le> 2027"
    then obtain i where i: "?y = PInt i" "2023 \<le> i" "i \<le> 2027" by blast
    with that have "i \<noteq> 2026" "i \<noteq> 2027" by auto
    with i have "i = 2023 \<or> i = 2024 \<or> i = 2025" by arith
    with i show "?y \<in> {PInt 2023, PInt 2024, PInt 2025}" by auto
  next
    assume "?y \<in> {PInt 2023, PInt 2024, PInt 2025}"
    then show "\<exists>i. ?y = PInt i \<and> 2023 \<le> i \<and> i \<le> 2027" by auto
  qed
  have first: "\<exists>c'. count_entry e (hp, c) = Inr (True, c')
        \<and> c' = (if py_eq_int ?y 2026 then c\<lparr>c2026 := c2026 c + 1\<rparr>
               else if py_eq_int ?y 2027 then c\<lparr>c2027 := c2027 c + 1\<rparr>
               else if ?y \<in> {PInt 2023, PInt 2024, PInt 2025} then c
               else c\<lparr>special_count := special_count c + 1\<rparr>)"
  proof (cases "py_eq_int ?y 2026 \<or> py_eq_int ?y 2027")
    case True
    then show ?thesis using assms(1) by (auto simp: count_entry_def Let_def)
  next
    case False
    then have n: "\<not> py_eq_int ?y 2026" "\<not> py_eq_int ?y 2027" by simp_all
    show ?thesis
      using assms(1) n mid [OF n] by (simp add: count_entry_def Let_def sp)
  qed
  obtain d6 where d6: "dict_incr (grad_year_2026_categories s) band = Inr d6"
    using dict_incr_total [OF assms(2)] by blast
  obtain d7 where d7: "dict_incr (grad_year_2027_categories s) band = Inr d7"
    using dict_incr_total [OF assms(3)] by blast
  have second: "\<exists>s'. skill_year_entry band e s = Inr s'
        \<and> grad_2026_count s' = grad_2026_count s + (if py_eq_int ?y 2026 then 1 else 0)
        \<and> grad_2027_count s' = grad_2027_count s + (if py_eq_int ?y 2027 then 1 else 0)
        \<and> (if py_eq_int ?y 2026 \<or> py_eq_int ?y 2027
            then sy_skill_categories s' = sy_skill_categories s
            else s' = s)"
    using assms(1) d6 d7 py_eq_int_exclusive [of ?y]
    by (auto simp: skill_year_entry_def Let_def)
  from first second show ?thesis by blast
qed

theorem end_year_bucket_witness:
  "truthy (scalar_get_default (is_primary (primary_entry Absent (Some (PStr ''2026'')))) (PBool False))
   \<and> count_entry (primary_entry Absent (Some (PStr ''2026''))) (False, zero_year_counts)
       = Inr (True, \<lparr>c2026 = 0, c2027 = 0, special_count = 1, no_primary_count = 0\<rparr>)"
proof -
  have p: "truthy (scalar_get_default (is_primary (primary_entry Absent (Some (PStr ''2026''))))
             (PBool False))"
    by (simp add: primary_entry_def)
  have k6: "''0 skills'' \<in> fst ` set (grad_year_2026_categories skill_year_initial)"
    by (simp add: skill_year_initial_def skill_categories_def)
  have k7: "''0 skills'' \<in> fst ` set (grad_year_2027_categories skill_year_initial)"
    by (simp add: skill_year_initial_def skill_categories_def)
  have y: "scalar_get (end_year (primary_entry Absent (Some (PStr ''2026'')))) = PStr ''2026''"
    by (simp add: primary_entry_def)
  from end_year_bucket [OF p k6 k7, of False zero_year_counts] p show ?thesis
    by (simp add: y zero_year_counts_def)
qed

text \<open>
  C4 as stated fails: a primary entry whose end year is the integer 2024 changes no
  counter of education\_count.py, and a primary entry with a null end year changes no
  counter of skill\_year.py. Both values fall outside all buckets.
\<close>

theorem end_year_outside_all_buckets_counterexample:
  "count_entry (primary_entry Absent (Some (PInt 2024))) (False, zero_year_counts)
     = Inr (True, zero_year_counts)
   \<and> skill_year_entry ''0 skills'' (primary_entry Absent (Some PNone)) skill_year_initial
     = Inr skill_year_initial"
  by (simp add: count_entry_def special_case_def skill_year_entry_def primary_entry_def)

section \<open>Which primary entry decides\<close>

lemma college_scan_first:
  assumes "list_all (\<lambda>x. \<not> primary_with_college x) pre" and "primary_with_college r"
  shows "college_scan (pre @ r # post) = dict_get (college_name r)"
  using assms by (induction pre) (simp_all add: primary_with_college_code)

lemma performance_scan_first:
  assumes "primary_with_performance r"
  shows "performance_scan (pre @ r # post)"
  using assms by (induction pre) (simp_all add: primary_with_performance_def is_True_iff)

text \<open>
  C8, as amended. For every record, the college classifier uses the first education entry,
  in storage order, that is flagged primary and has a non-empty college name (a primary
  entry without a college name is passed over), and the grade flag is set by the first
  primary entry whose performance is not null. Both scans stop at that entry: whatever
  entries follow it, primary or not, the college and the grade flag of the record are the
  same.
\<close>

theorem first_qualifying_entry_decides:
  assumes "list_all (\<lambda>x. \<not> primary_with_college x) pre" and "primary_with_college r"
    and "primary_with_performance p"
  shows "(\<exists>c. college_name r = Val c
              \<and> get_college_name (st\<lparr>education_records := Val (pre @ r # post)\<rparr>) = Inr c)
   \<and> has_performance (st\<lparr>education_records := Val (before @ p # post)\<rparr>) = Inr True"
proof -
  obtain c where c: "college_name r = Val c"
    using assms(2) by (auto simp: primary_with_college_def split: dict_value.splits)
  have "get_college_name (st\<lparr>education_records := Val (pre @ r # post)\<rparr>) = Inr c"
    using college_scan_first [OF assms(1,2), of post] c
    by (simp add: get_college_name_total field_items_def)
  moreover have "has_performance (st\<lparr>education_records := Val (before @ p # post)\<rparr>) = Inr True"
    using performance_scan_first [OF assms(3), of before post]
    by (simp add: has_performance_total field_items_def)
  ultimately show ?thesis using c by simp
qed

theorem first_qualifying_entry_decides_witness:
  "list_all (\<lambda>x. \<not> primary_with_college x) [primary_entry Absent None]
   \<and> primary_with_college (primary_entry (Val ''B'') None)
   \<and> primary_with_performance ((primary_entry Absent None)\<lparr>performance := Some (PInt 8)\<rparr>)
   \<and> get_college_name
        (student_with [primary_entry Absent None, primary_entry (Val ''B'') None,
                       primary_entry (Val ''C'') None]) = Inr ''B''"
proof -
  have a: "list_all (\<lambda>x. \<not> primary_with_college x) [primary_entry Absent None]"
    by (simp add: primary_with_college_def primary_entry_def)
  have b: "primary_with_college (primary_entry (Val ''B'') None)"
    by (simp add: primary_with_college_def primary_entry_def)
  have c: "primary_with_performance ((primary_entry Absent None)\<lparr>performance := Some (PInt 8)\<rparr>)"
    by (simp add: primary_with_performance_def primary_entry_def)
  have d: "college_name (primary_entry (Val ''B'') None) = Val ''B''"
    by (simp add: primary_entry_def)
  from first_qualifying_entry_decides [OF a b c, where st = "student_with []"
      and post = "[primary_entry (Val ''C'') None]" and before = "[]"]
  have "get_college_name
        (student_with [primary_entry Absent None, primary_entry (Val ''B'') None,
                       primary_entry (Val ''C'') None]) = Inr ''B''"
    by (simp add: d student_with_def)
  with a b c show ?thesis by simp
qed

text \<open>
  C8 as stated fails. In \<open>get_college_name\<close> a first primary entry without a college name
  does not decide: the later primary entry does. In education\_count.py and skill\_year.py
  the loop over the entries has no \<open>break\<close>: a later primary entry is counted as well,
  and changes the totals.
\<close>

theorem later_primary_entry_counts_counterexample:
  "get_college_name (student_with [primary_entry Absent None, primary_entry (Val ''B'') None])
     = Inr ''B''
   \<and> get_college_name (student_with [primary_entry Absent None]) = Inr ''Unknown''
   \<and> education_count_process_batch
       [student_with [primary_entry Absent (Some (PInt 2026))]]
     = Inr \<lparr>c2026 = 1, c2027 = 0, special_count = 0, no_primary_count = 0\<rparr>
   \<and> education_count_process_batch
       [student_with [primary_entry Absent (Some (PInt 2026)),
                      primary_entry Absent (Some (PInt 2027))]]
     = Inr \<lparr>c2026 = 1, c2027 = 1, special_count = 0, no_primary_count = 0\<rparr>
   \<and> skill_year_main
       [student_with [primary_entry Absent (Some (PInt 2026)),
                      primary_entry Absent (Some (PInt 2026))]]
     = Inr \<lparr>sy_counters =
              \<lparr>sy_skill_categories =
                 [(''0 skills'', 1), (''1-3 skills'', 0), (''4-6 skills'', 0),
                  (''7-10 skills'', 0), (''10+ skills'', 0)],
               grad_year_2026_categories =
                 [(''0 skills'', 2), (''1-3 skills'', 0), (''4-6 skills'', 0),
                  (''7-10 skills'', 0), (''10+ skills'', 0)],
               grad_year_2027_categories =
                 [(''0 skills'', 0), (''1-3 skills'', 0), (''4-6 skills'', 0),
                  (''7-10 skills'', 0), (''10+ skills'', 0)],
               sy_processed_count = 1, grad_2026_count = 2, grad_2027_count = 0\<rparr>,
            sy_overall_percentages =
              [(''0 skills'', 100), (''1-3 skills'', 0), (''4-6 skills'', 0),
               (''7-10 skills'', 0), (''10+ skills'', 0)],
            sy_2026_percentages =
              [(''0 skills'', 100), (''1-3 skills'', 0), (''4-6 skills'', 0),
               (''7-10 skills'', 0), (''10+ skills'', 0)],
            sy_2027_percentages = []\<rparr>"
  by (simp add: get_college_name_def student_with_def primary_entry_def
        education_count_process_batch_def count_student_def count_entry_def zero_year_counts_def
        skill_year_main_def skill_year_loop_def skill_year_student_def skill_year_entry_def
        skill_year_initial_def skill_categories_def get_skills_count_def skills_category_def
        percentage_of_def py_truediv_def Let_def)

section \<open>The skill list of the importer\<close>

lemma py_split_nonempty: "py_split sep s \<noteq> []"
  by (induction s) (auto split: list.splits)

lemma py_split_no_sep: "t \<in> set (py_split sep s) \<Longrightarrow> sep \<notin> set t"
proof (induction s arbitrary: t)
  case Nil
  then show ?case by simp
next
  case (Cons c cs)
  show ?case
  proof (cases "c = sep")
    case True
    with Cons show ?thesis by auto
  next
    case False
    obtain u us where u: "py_split sep cs = u # us"
      using py_split_nonempty [of sep cs] by (cases "py_split sep cs") auto
    with False Cons.prems have "t = c # u \<or> t \<in> set us" by auto
    then show ?thesis
    proof
      assume "t = c # u"
      moreover have "sep \<notin> set u" using Cons.IH [of u] u by simp
      ultimately show ?thesis using False by auto
    next
      assume "t \<in> set us"
      then show ?thesis using Cons.IH [of t] u by simp
    qed
  qed
qed

lemma py_join_split: "py_join sep (py_split sep s) = s"
proof (induction s)
  case Nil
  show ?case by simp
next
  case (Cons c cs)
  obtain u us where u: "py_split sep cs = u # us"
    using py_split_nonempty [of sep cs] by (cases "py_split sep cs") auto
  show ?case
  proof (cases "c = sep")
    case True
    with Cons u show ?thesis by simp
  next
    case False
    with Cons u show ?thesis by (cases us) simp_all
  qed
qed

lemma last_dropWhile: "dropWhile P xs \<noteq> [] \<Longrightarrow> last (dropWhile P xs) = last xs"
  by (induction xs) (auto split: if_splits)

lemma py_strip_ends:
  assumes "py_strip t \<noteq> []"
  shows "\<not> py_isspace (hd (py_strip t))" and "\<not> py_isspace (last (py_strip t))"
proof -
  let ?u = "dropWhile py_isspace t"
  let ?v = "dropWhile py_isspace (rev ?u)"
  have v: "?v \<noteq> []" using assms by (simp add: py_strip_def)
  have u: "?u \<noteq> []"
  proof
    assume a: "?u = []"
    have "?v = dropWhile py_isspace (rev [])" by (simp only: a)
    also have "\<dots> = []" by (simp only: rev.simps dropWhile.simps)
    finally show False using v by blast
  qed
  have "hd (py_strip t) = last ?v" by (simp add: py_strip_def hd_rev)
  also have "\<dots> = last (rev ?u)" using v by (rule last_dropWhile)
  also have "\<dots> = hd ?u" using u by (simp add: last_rev)
  finally have "hd (py_strip t) = hd ?u" .
  moreover have "\<not> py_isspace (hd ?u)" using u by (rule hd_dropWhile)
  ultimately show "\<not> py_isspace (hd (py_strip t))" by simp
  have "last (py_strip t) = hd ?v" using v by (simp add: py_strip_def last_rev)
  moreover have "\<not> py_isspace (hd ?v)" using v by (rule hd_dropWhile)
  ultimately show "\<not> py_isspace (last (py_strip t))" by simp
qed

lemma set_dropWhile_subset: "set (dropWhile P xs) \<subseteq> set xs"
  by (meson set_dropWhileD subsetI)

lemma py_strip_subset: "set (py_strip t) \<subseteq> set t"
proof -
  have "set (py_strip t) = set (dropWhile py_isspace (rev (dropWhile py_isspace t)))"
    by (simp only: py_strip_def set_rev)
  also have "\<dots> \<subseteq> set (rev (dropWhile py_isspace t))"
    by (rule set_dropWhile_subset)
  also have "\<dots> = set (dropWhile py_isspace t)"
    by (simp only: set_rev)
  also have "\<dots> \<subseteq> set t"
    by (rule set_dropWhile_subset)
  finally show ?thesis .
qed

lemma of_char_lower:
  "(of_char (lower_char c) :: nat) = (if is_upper c then of_char c + 32 else of_char c)"
  by (auto simp: lower_char_def is_upper_def Let_def)

lemma lower_char_isspace: "py_isspace (lower_char c) = py_isspace c"
  by (auto simp: py_isspace_def of_char_lower is_upper_def Let_def)

lemma lower_char_not_upper: "\<not> is_upper (lower_char c)"
  using of_char_lower [of c] by (auto simp: is_upper_def Let_def split: if_splits)

lemma lower_char_comma: "lower_char c = CHR '','' \<Longrightarrow> c = CHR '',''"
proof -
  assume "lower_char c = CHR '',''"
  then have "(of_char (lower_char c) :: nat) = of_char CHR '',''" by simp
  then have "(of_char c :: nat) = 44"
    by (auto simp: of_char_lower is_upper_def Let_def split: if_splits)
  then have "(of_char c :: nat) = of_char CHR '',''" by simp
  then show "c = CHR '',''" by (simp only: of_char_eq_iff)
qed

lemma clean_skill_entry:
  assumes "t \<in> set (py_split CHR '','' s)" and "py_strip t \<noteq> []"
  shows "clean_entry (skill_entry (py_strip t))"
proof -
  let ?n = "py_strip t"
  have comma: "CHR '','' \<notin> set ?n"
    using py_split_no_sep [OF assms(1)] py_strip_subset [of t] by auto
  have "CHR '','' \<notin> set (py_lower ?n)"
  proof
    assume "CHR '','' \<in> set (py_lower ?n)"
    then obtain c where c: "c \<in> set ?n" "lower_char c = CHR '',''"
      by (auto simp: py_lower_def)
    from c(2) have "c = CHR '',''" by (rule lower_char_comma)
    with c(1) comma show False by simp
  qed
  moreover have "\<not> py_isspace (hd (py_lower ?n))"
    using py_strip_ends(1) [OF assms(2)] assms(2)
    by (simp add: py_lower_def hd_map lower_char_isspace)
  moreover have "\<not> py_isspace (last (py_lower ?n))"
    using py_strip_ends(2) [OF assms(2)] assms(2)
    by (simp add: py_lower_def last_map lower_char_isspace)
  moreover have "\<not> list_ex is_upper (py_lower ?n)"
    by (simp add: py_lower_def list_ex_iff lower_char_not_upper)
  ultimately show ?thesis
    using assms(2) by (simp add: clean_entry_def skill_entry_def py_lower_def)
qed

text \<open>
  C5, as amended. For the skill string "Python, python, SQL," the importer produces a
  skill list of exactly three entries, named "python", "python" and "sql": the empty token
  is dropped and the duplicate is kept, and each entry carries the rating 2. In general,
  for every skill string, the importer splits at the commas (the tokens joined by commas
  give the string back), trims and lower-cases each token and drops the tokens that are
  empty after trimming: every entry has a non-empty name with no comma, no capital letter
  and no white space at either end, the rating 2, no composite and no versions.
\<close>

theorem skills_array_of_string:
  "skills_array (Str ''Python, python, SQL,'') =
     Inr [\<lparr>name = ''python'', rating = 2, composite = PNone, versions = []\<rparr>,
          \<lparr>name = ''python'', rating = 2, composite = PNone, versions = []\<rparr>,
          \<lparr>name = ''sql'', rating = 2, composite = PNone, versions = []\<rparr>]
   \<and> py_join CHR '','' (py_split CHR '','' s) = s
   \<and> (\<exists>arr. skills_array (Str s) = Inr arr
        \<and> map name arr =
            map (\<lambda>t. py_lower (py_strip t))
              (filter (\<lambda>t. py_strip t \<noteq> []) (py_split CHR '','' s))
        \<and> list_all clean_entry arr)"
proof -
  have ex: "skills_array (Str ''Python, python, SQL,'') =
     Inr [\<lparr>name = ''python'', rating = 2, composite = PNone, versions = []\<rparr>,
          \<lparr>name = ''python'', rating = 2, composite = PNone, versions = []\<rparr>,
          \<lparr>name = ''sql'', rating = 2, composite = PNone, versions = []\<rparr>]"
    by code_simp
  let ?toks = "filter (\<lambda>t. py_strip t \<noteq> []) (py_split CHR '','' s)"
  let ?arr = "map skill_entry (map py_strip ?toks)"
  have arr: "skills_array (Str s) = Inr ?arr"
    by (simp add: skills_array_def skill_names_def)
  have names: "map name ?arr = map (\<lambda>t. py_lower (py_strip t)) ?toks"
    by (simp add: skill_entry_def)
  have clean: "list_all clean_entry ?arr"
    by (auto simp: list_all_iff intro: clean_skill_entry)
  from ex arr names clean py_join_split [of "CHR '',''" s] show ?thesis by blast
qed

theorem skills_array_of_string_witness:
  "\<exists>arr. skills_array (Str ''C++ ,, Java '') = Inr arr
     \<and> map name arr =
         map (\<lambda>t. py_lower (py_strip t))
           (filter (\<lambda>t. py_strip t \<noteq> []) (py_split CHR '','' ''C++ ,, Java ''))
     \<and> list_all clean_entry arr"
  using skills_array_of_string [of "''C++ ,, Java ''"] by blast

text \<open>
  C5 as stated fails: the skill list for "Python, python, SQL," has three entries, not
  two; the importer has no step that removes a repeated name.
\<close>

theorem skills_array_keeps_duplicates_counterexample:
  "map name (case skills_array (Str ''Python, python, SQL,'') of Inr arr \<Rightarrow> arr | Inl e \<Rightarrow> [])
     = [''python'', ''python'', ''sql'']"
  by code_simp

section \<open>Rows that fail and rows that are skipped\<close>

lemma row_body_blank:
  "blank_skills (row_skills r) \<Longrightarrow> row_body oid r st = Inr st"
  by (cases "row_skills r") (simp_all add: blank_skills_def row_body_with_def answering_store_def no_skills_data_def)

lemma row_body_number:
  "row_skills r = Num x \<Longrightarrow> row_body oid r st = Inl AttributeError"
  by (simp add: row_body_with_def answering_store_def no_skills_data_def)

lemma row_body_bad_id:
  "row_skills r = Str s \<Longrightarrow> py_strip s \<noteq> [] \<Longrightarrow> oid (row_student_id r) = Inl e
     \<Longrightarrow> row_body oid r st = Inl e"
  by (simp add: row_body_with_def answering_store_def no_skills_data_def skills_array_def skill_names_def)

lemma row_body_update:
  assumes "row_skills r = Str s" and "py_strip s \<noteq> []" and "oid (row_student_id r) = Inr k"
  shows "\<exists>arr. skills_array (row_skills r) = Inr arr
     \<and> row_body oid r st =
         Inr (if 0 < fst (update_one (db st) k arr)
              then st\<lparr>update_count := update_count st + 1, db := snd (update_one (db st) k arr)\<rparr>
              else st\<lparr>db := snd (update_one (db st) k arr)\<rparr>)"
  using assms
  by (simp add: row_body_with_def answering_store_def no_skills_data_def skills_array_def skill_names_def
        split: prod.splits)

lemma update_one_dom: "dom (snd (update_one store k arr)) = dom store"
  by (auto simp: update_one_def split: option.splits)

lemma update_one_unmatched: "store k = None \<Longrightarrow> update_one store k arr = (0, store)"
  by (simp add: update_one_def)

lemma update_one_count: "fst (update_one store k arr) = 0 \<or> fst (update_one store k arr) = 1"
  by (simp add: update_one_def split: option.splits)

lemma row_body_raises: "isl (row_body oid r st) \<longleftrightarrow> row_raises oid r"
proof (cases "row_skills r")
  case NaN
  then show ?thesis
    using row_body_blank [of r oid st] by (simp add: blank_skills_def row_raises_def)
next
  case (Num x)
  then show ?thesis by (simp add: row_body_number row_raises_def)
next
  case (Str s)
  show ?thesis
  proof (cases "py_strip s = []")
    case True
    with Str show ?thesis
      using row_body_blank [of r oid st] by (simp add: blank_skills_def row_raises_def)
  next
    case False
    show ?thesis
    proof (cases "oid (row_student_id r)")
      case (Inl e)
      with Str False show ?thesis by (simp add: row_body_bad_id row_raises_def)
    next
      case (Inr k)
      with Str False row_body_update [where oid = oid and r = r and st = st, OF Str False Inr] show ?thesis
        by (auto simp: row_raises_def)
    qed
  qed
qed

lemma process_row_raises:
  "row_raises oid r \<Longrightarrow> process_row oid r st = st\<lparr>error_count := error_count st + 1\<rparr>"
  using row_body_raises [of oid r st]
  by (cases "row_body oid r st") (simp_all add: process_row_with_def)

lemma process_row_error_count:
  "error_count (process_row oid r st) = error_count st + (if row_raises oid r then 1 else 0)"
proof (cases "row_raises oid r")
  case True
  then show ?thesis by (simp add: process_row_raises)
next
  case False
  then have ok: "\<not> isl (row_body oid r st)" by (simp add: row_body_raises)
  show ?thesis
  proof (cases "row_skills r")
    case NaN
    then show ?thesis
      using False row_body_blank [of r oid st] by (simp add: blank_skills_def process_row_with_def)
  next
    case (Num x)
    with False show ?thesis by (simp add: row_raises_def)
  next
    case (Str s)
    show ?thesis
    proof (cases "py_strip s = []")
      case True
      with Str show ?thesis
        using False row_body_blank [of r oid st] by (simp add: blank_skills_def process_row_with_def)
    next
      case ne: False
      with Str False obtain k where k: "oid (row_student_id r) = Inr k"
        by (cases "oid (row_student_id r)") (auto simp: row_raises_def)
      from row_body_update [where oid = oid and r = r and st = st, OF Str ne k] False show ?thesis
        by (auto simp: process_row_with_def)
    qed
  qed
qed

lemma fold_error_count:
  "error_count (fold (process_row oid) rows st)
     = error_count st + int (length (filter (row_raises oid) rows))"
  by (induction rows arbitrary: st) (simp_all add: process_row_error_count)

lemma skills_array_Str:
  "skills_array (Str s) =
     Inr (map skill_entry (map py_strip (filter (\<lambda>t. py_strip t \<noteq> []) (py_split CHR '','' s))))"
  by (simp add: skills_array_def skill_names_def)

lemma row_skipped_step:
  "row_outcome u oid (db st) r = Skipped \<Longrightarrow> process_row_with u oid r st = st"
  by (auto simp: row_outcome_def process_row_with_def row_body_with_def no_skills_data_def
        skills_array_Str split: cell.splits sum.splits if_splits)

lemma row_failed_step:
  "row_outcome u oid (db st) r = Failed \<Longrightarrow>
     isl (row_body_with u oid r st)
     \<and> process_row_with u oid r st = st\<lparr>error_count := error_count st + 1\<rparr>"
  by (auto simp: row_outcome_def process_row_with_def row_body_with_def no_skills_data_def
        skills_array_Str split: cell.splits sum.splits if_splits)

lemma row_updated_step:
  "row_outcome u oid (db st) r = Updated \<Longrightarrow>
     \<exists>k arr m store'. oid (row_student_id r) = Inr k \<and> skills_array (row_skills r) = Inr arr
       \<and> u (db st) k arr = Inr (m, store') \<and> 0 < m
       \<and> process_row_with u oid r st = st\<lparr>update_count := update_count st + 1, db := store'\<rparr>"
  by (auto simp: row_outcome_def process_row_with_def row_body_with_def no_skills_data_def
        skills_array_Str split: cell.splits sum.splits if_splits)

lemma row_unmodified_step:
  "row_outcome u oid (db st) r = Unmodified \<Longrightarrow>
     \<exists>k arr m store'. oid (row_student_id r) = Inr k \<and> skills_array (row_skills r) = Inr arr
       \<and> u (db st) k arr = Inr (m, store') \<and> \<not> 0 < m
       \<and> process_row_with u oid r st = st\<lparr>db := store'\<rparr>"
  by (auto simp: row_outcome_def process_row_with_def row_body_with_def no_skills_data_def
        skills_array_Str split: cell.splits sum.splits if_splits)

lemma bad_id_fails:
  "row_skills r = Str s \<Longrightarrow> py_strip s \<noteq> [] \<Longrightarrow> oid (row_student_id r) = Inl e \<Longrightarrow>
     row_body_with u oid r st = Inl e \<and> row_outcome u oid (db st) r = Failed"
  by (simp add: row_outcome_def row_body_with_def no_skills_data_def skills_array_Str)

lemma update_failure_fails:
  "row_skills r = Str s \<Longrightarrow> py_strip s \<noteq> [] \<Longrightarrow> oid (row_student_id r) = Inr k \<Longrightarrow>
   skills_array (Str s) = Inr arr \<Longrightarrow> u (db st) k arr = Inl e \<Longrightarrow>
     row_body_with u oid r st = Inl e \<and> row_outcome u oid (db st) r = Failed"
  by (simp add: row_outcome_def row_body_with_def no_skills_data_def)

lemma matched_row_updates:
  assumes "row_skills r = Str s" and "py_strip s \<noteq> []" and "oid (row_student_id r) = Inr k"
    and "skills_array (Str s) = Inr arr" and "db st k = Some doc" and "skills doc \<noteq> Val arr"
  shows "process_row oid r st =
           st\<lparr>update_count := update_count st + 1,
              db := (db st)(k \<mapsto> doc\<lparr>skills := Val arr\<rparr>)\<rparr>"
  using assms
  by (simp add: process_row_with_def row_body_with_def no_skills_data_def answering_store_def
        update_one_def)

lemma step_counts:
  "error_count (process_row_with u oid r st)
     = error_count st + (if row_outcome u oid (db st) r = Failed then 1 else 0)
   \<and> update_count (process_row_with u oid r st)
     = update_count st + (if row_outcome u oid (db st) r = Updated then 1 else 0)"
proof (cases "row_outcome u oid (db st) r")
  case Skipped
  then show ?thesis by (simp add: row_skipped_step)
next
  case Failed
  then show ?thesis by (simp add: row_failed_step)
next
  case Updated
  with row_updated_step [OF Updated] show ?thesis by auto
next
  case Unmodified
  with row_unmodified_step [OF Unmodified] show ?thesis by auto
qed

lemma fold_outcome_counts:
  "error_count (fold (process_row_with u oid) rows st)
     = error_count st + int (count_list (outcomes u oid rows st) Failed)
   \<and> update_count (fold (process_row_with u oid) rows st)
     = update_count st + int (count_list (outcomes u oid rows st) Updated)
   \<and> length (outcomes u oid rows st) = length rows"
proof (induction rows arbitrary: st)
  case Nil
  show ?case by simp
next
  case (Cons r rows)
  from Cons [of "process_row_with u oid r st"] step_counts [of u oid r st]
  show ?case by simp
qed

text \<open>
  C7. Every row of the file has one outcome and is processed, whatever happened to the
  rows before it. A row fails when an exception leaves its body: a numeric skills cell, a
  malformed identifier (the parser's exception), or an exception of the driver's update. A
  failing row adds one to the error count and changes nothing else, and the loop goes on
  with the rows after it; a row whose update modified a document adds one to the success
  count and leaves the store the update returned; a skipped row and an update that
  modified nothing change neither count. The run ends with its two counts: the error count
  is the number of failed rows and the success count the number of updated rows. On a
  driver that always answers, a row fails exactly when its skills cell is a number or,
  the skills not being blank, its identifier cannot be parsed, and a row whose identifier
  matches a document with other skills replaces the skills of that document and counts as
  a success.
\<close>

theorem row_failure_is_counted:
  "(row_outcome update object_id (db st) r = Skipped
      \<longrightarrow> process_row_with update object_id r st = st)
   \<and> (row_outcome update object_id (db st) r = Failed
      \<longrightarrow> isl (row_body_with update object_id r st)
          \<and> process_row_with update object_id r st = st\<lparr>error_count := error_count st + 1\<rparr>)
   \<and> (row_outcome update object_id (db st) r = Updated
      \<longrightarrow> (\<exists>k arr m store'. object_id (row_student_id r) = Inr k
            \<and> skills_array (row_skills r) = Inr arr
            \<and> update (db st) k arr = Inr (m, store') \<and> 0 < m
            \<and> process_row_with update object_id r st
                = st\<lparr>update_count := update_count st + 1, db := store'\<rparr>))
   \<and> (row_outcome update object_id (db st) r = Unmodified
      \<longrightarrow> (\<exists>k arr m store'. object_id (row_student_id r) = Inr k
            \<and> skills_array (row_skills r) = Inr arr
            \<and> update (db st) k arr = Inr (m, store') \<and> \<not> 0 < m
            \<and> process_row_with update object_id r st = st\<lparr>db := store'\<rparr>))
   \<and> (row_skills r = Str s \<and> py_strip s \<noteq> [] \<and> object_id (row_student_id r) = Inl e
      \<longrightarrow> row_body_with update object_id r st = Inl e
          \<and> row_outcome update object_id (db st) r = Failed)
   \<and> (row_skills r = Str s \<and> py_strip s \<noteq> [] \<and> object_id (row_student_id r) = Inr k
        \<and> skills_array (Str s) = Inr arr \<and> update (db st) k arr = Inl e
      \<longrightarrow> row_body_with update object_id r st = Inl e
          \<and> row_outcome update object_id (db st) r = Failed)
   \<and> process_skills_csv_to_mongodb_with update object_id (before @ r # after) store
       = fold (process_row_with update object_id) after
           (process_row_with update object_id r
              (process_skills_csv_to_mongodb_with update object_id before store))
   \<and> length (outcomes update object_id rows \<lparr>update_count = 0, error_count = 0, db = store\<rparr>)
       = length rows
   \<and> error_count (process_skills_csv_to_mongodb_with update object_id rows store)
       = int (count_list
               (outcomes update object_id rows \<lparr>update_count = 0, error_count = 0, db = store\<rparr>)
               Failed)
   \<and> update_count (process_skills_csv_to_mongodb_with update object_id rows store)
       = int (count_list
               (outcomes update object_id rows \<lparr>update_count = 0, error_count = 0, db = store\<rparr>)
               Updated)
   \<and> (isl (row_body object_id r st) \<longleftrightarrow> row_raises object_id r)
   \<and> (row_raises object_id r
        \<longrightarrow> process_row object_id r st = st\<lparr>error_count := error_count st + 1\<rparr>)
   \<and> (row_raises object_id r
        \<longrightarrow> process_skills_csv_to_mongodb object_id (before @ r # after) store
            = fold (process_row object_id) after
                ((process_skills_csv_to_mongodb object_id before store)
                   \<lparr>error_count :=
                      error_count (process_skills_csv_to_mongodb object_id before store) + 1\<rparr>))
   \<and> error_count (process_skills_csv_to_mongodb object_id rows store)
       = int (length (filter (row_raises object_id) rows))
   \<and> (row_skills r = Str s \<and> py_strip s \<noteq> [] \<and> object_id (row_student_id r) = Inr k
        \<and> skills_array (Str s) = Inr arr \<and> db st k = Some doc \<and> skills doc \<noteq> Val arr
      \<longrightarrow> process_row object_id r st
            = st\<lparr>update_count := update_count st + 1,
                 db := (db st)(k \<mapsto> doc\<lparr>skills := Val arr\<rparr>)\<rparr>)"
proof -
  let ?init = "\<lparr>update_count = 0, error_count = 0, db = store\<rparr>"
  have steps: "(row_outcome update object_id (db st) r = Skipped
      \<longrightarrow> process_row_with update object_id r st = st)
   \<and> (row_outcome update object_id (db st) r = Failed
      \<longrightarrow> isl (row_body_with update object_id r st)
          \<and> process_row_with update object_id r st = st\<lparr>error_count := error_count st + 1\<rparr>)
   \<and> (row_outcome update object_id (db st) r = Updated
      \<longrightarrow> (\<exists>k arr m store'. object_id (row_student_id r) = Inr k
            \<and> skills_array (row_skills r) = Inr arr
            \<and> update (db st) k arr = Inr (m, store') \<and> 0 < m
            \<and> process_row_with update object_id r st
                = st\<lparr>update_count := update_count st + 1, db := store'\<rparr>))
   \<and> (row_outcome update object_id (db st) r = Unmodified
      \<longrightarrow> (\<exists>k arr m store'. object_id (row_student_id r) = Inr k
            \<and> skills_array (row_skills r) = Inr arr
            \<and> update (db st) k arr = Inr (m, store') \<and> \<not> 0 < m
            \<and> process_row_with update object_id r st = st\<lparr>db := store'\<rparr>))"
    using row_skipped_step [of update object_id st r] row_failed_step [of update object_id st r]
      row_updated_step [of update object_id st r] row_unmodified_step [of update object_id st r]
    by blast
  have fails: "(row_skills r = Str s \<and> py_strip s \<noteq> [] \<and> object_id (row_student_id r) = Inl e
      \<longrightarrow> row_body_with update object_id r st = Inl e
          \<and> row_outcome update object_id (db st) r = Failed)
   \<and> (row_skills r = Str s \<and> py_strip s \<noteq> [] \<and> object_id (row_student_id r) = Inr k
        \<and> skills_array (Str s) = Inr arr \<and> update (db st) k arr = Inl e
      \<longrightarrow> row_body_with update object_id r st = Inl e
          \<and> row_outcome update object_id (db st) r = Failed)"
    using bad_id_fails [of r s object_id e update st]
      update_failure_fails [of r s object_id k arr update st e]
    by blast
  have continues: "process_skills_csv_to_mongodb_with update object_id (before @ r # after) store
       = fold (process_row_with update object_id) after
           (process_row_with update object_id r
              (process_skills_csv_to_mongodb_with update object_id before store))"
    by (simp add: process_skills_csv_to_mongodb_with_def)
  have counts: "length (outcomes update object_id rows ?init) = length rows
   \<and> error_count (process_skills_csv_to_mongodb_with update object_id rows store)
       = int (count_list (outcomes update object_id rows ?init) Failed)
   \<and> update_count (process_skills_csv_to_mongodb_with update object_id rows store)
       = int (count_list (outcomes update object_id rows ?init) Updated)"
    using fold_outcome_counts [of update object_id rows ?init]
    by (simp add: process_skills_csv_to_mongodb_with_def)
  have answering: "(isl (row_body object_id r st) \<longleftrightarrow> row_raises object_id r)
   \<and> (row_raises object_id r
        \<longrightarrow> process_row object_id r st = st\<lparr>error_count := error_count st + 1\<rparr>)
   \<and> (row_raises object_id r
        \<longrightarrow> process_skills_csv_to_mongodb object_id (before @ r # after) store
            = fold (process_row object_id) after
                ((process_skills_csv_to_mongodb object_id before store)
                   \<lparr>error_count :=
                      error_count (process_skills_csv_to_mongodb object_id before store) + 1\<rparr>))
   \<and> error_count (process_skills_csv_to_mongodb object_id rows store)
       = int (length (filter (row_raises object_id) rows))"
    by (simp add: row_body_raises process_row_raises
          process_skills_csv_to_mongodb_with_def fold_error_count)
  have success: "row_skills r = Str s \<and> py_strip s \<noteq> [] \<and> object_id (row_student_id r) = Inr k
        \<and> skills_array (Str s) = Inr arr \<and> db st k = Some doc \<and> skills doc \<noteq> Val arr
      \<longrightarrow> process_row object_id r st
            = st\<lparr>update_count := update_count st + 1,
                 db := (db st)(k \<mapsto> doc\<lparr>skills := Val arr\<rparr>)\<rparr>"
    using matched_row_updates [of r s object_id k arr st doc] by blast
  from steps fails continues counts answering success show ?thesis by blast
qed

theorem row_failure_is_counted_witness:
  "row_raises hex_object_id (hd example_rows)
   \<and> outcomes answering_store hex_object_id example_rows
       \<lparr>update_count = 0, error_count = 0, db = example_store\<rparr>
       = [Failed, Skipped, Updated, Unmodified]
   \<and> error_count (process_skills_csv_to_mongodb hex_object_id example_rows example_store) = 1
   \<and> update_count (process_skills_csv_to_mongodb hex_object_id example_rows example_store) = 1
   \<and> process_row hex_object_id (example_rows ! 2)
       \<lparr>update_count = 0, error_count = 0, db = example_store\<rparr>
       = \<lparr>update_count = 1, error_count = 0,
          db = example_store(''0123456789abcdef01234567'' \<mapsto>
                 (student_with [])\<lparr>skills := Val [skill_entry ''Go'']\<rparr>)\<rparr>"
proof -
  let ?init = "\<lparr>update_count = 0, error_count = 0, db = example_store\<rparr>"
  let ?k = "''0123456789abcdef01234567''"
  have raises: "row_raises hex_object_id (hd example_rows)"
    by (simp add: example_rows_def row_raises_def py_strip_def py_isspace_def)
  have out: "outcomes answering_store hex_object_id example_rows ?init
               = [Failed, Skipped, Updated, Unmodified]"
    by code_simp
  have row: "row_skills (example_rows ! 2) = Str ''Go''"
    by (simp add: example_rows_def)
  have blank: "py_strip ''Go'' \<noteq> []"
    by (simp add: py_strip_def py_isspace_def)
  have key: "hex_object_id (row_student_id (example_rows ! 2)) = Inr ?k"
    by code_simp
  have arr: "skills_array (Str ''Go'') = Inr [skill_entry ''Go'']"
    by (simp add: skills_array_Str py_strip_def py_isspace_def)
  have doc: "db ?init ?k = Some (student_with [])"
    by (simp add: example_store_def)
  have other: "skills (student_with []) \<noteq> Val [skill_entry ''Go'']"
    by (simp add: student_with_def)
  note inst = row_failure_is_counted
      [where update = answering_store and object_id = hex_object_id and rows = example_rows
         and store = example_store and r = "example_rows ! 2" and st = ?init and s = "''Go''"
         and k = ?k and arr = "[skill_entry ''Go'']" and doc = "student_with []"]
  from inst out have "error_count (process_skills_csv_to_mongodb hex_object_id example_rows example_store) = 1"
    by simp
  moreover from inst out
  have "update_count (process_skills_csv_to_mongodb hex_object_id example_rows example_store) = 1"
    by simp
  moreover from inst row blank key arr doc other
  have "process_row hex_object_id (example_rows ! 2) ?init
       = \<lparr>update_count = 1, error_count = 0,
          db = example_store(?k \<mapsto> (student_with [])\<lparr>skills := Val [skill_entry ''Go'']\<rparr>)\<rparr>"
    by simp
  ultimately show ?thesis using raises out by simp
qed

section \<open>Skipped rows are in neither count\<close>

lemma process_row_blank:
  "blank_skills (row_skills r) \<Longrightarrow> process_row oid r st = st"
  by (simp add: process_row_with_def row_body_blank)

lemma process_row_unmatched:
  assumes "unmatched oid (db st) r"
  shows "process_row oid r st = st"
proof -
  from assms obtain s k where s: "row_skills r = Str s" "py_strip s \<noteq> []"
      and k: "oid (row_student_id r) = Inr k" "db st k = None"
    by (auto simp: unmatched_def split: cell.splits sum.splits)
  have u: "update_one (db st) k arr = (0, db st)" for arr
    using k(2) by (rule update_one_unmatched)
  from row_body_update [where oid = oid and r = r and st = st, OF s k(1)]
  show ?thesis
    by (auto simp: process_row_with_def u)
qed

lemma process_row_dom: "dom (db (process_row oid r st)) = dom (db st)"
proof (cases "row_raises oid r")
  case True
  then show ?thesis by (simp add: process_row_raises)
next
  case False
  show ?thesis
  proof (cases "blank_skills (row_skills r)")
    case True
    then show ?thesis by (simp add: process_row_blank)
  next
    case nb: False
    with False obtain s k where s: "row_skills r = Str s" "py_strip s \<noteq> []"
        and k: "oid (row_student_id r) = Inr k"
      by (cases "row_skills r"; cases "oid (row_student_id r)")
         (auto simp: row_raises_def blank_skills_def)
    from row_body_update [where oid = oid and r = r and st = st, OF s k]
    obtain arr where body: "row_body oid r st =
         Inr (if 0 < fst (update_one (db st) k arr)
              then st\<lparr>update_count := update_count st + 1, db := snd (update_one (db st) k arr)\<rparr>
              else st\<lparr>db := snd (update_one (db st) k arr)\<rparr>)"
      by blast
    show ?thesis by (simp add: process_row_with_def body update_one_dom)
  qed
qed

lemma skipped_dom: "dom s1 = dom s2 \<Longrightarrow> skipped oid s1 r = skipped oid s2 r"
proof -
  assume d: "dom s1 = dom s2"
  have "(s1 k = None) = (s2 k = None)" for k
    using d by (metis domIff)
  then show ?thesis
    by (simp add: skipped_def unmatched_def split: cell.splits sum.splits)
qed

lemma raises_not_skipped: "row_raises oid r \<Longrightarrow> \<not> skipped oid store r"
  by (auto simp: row_raises_def skipped_def blank_skills_def unmatched_def
        split: cell.splits sum.splits)

lemma process_row_counts:
  "update_count (process_row oid r st) + error_count (process_row oid r st)
     \<le> update_count st + error_count st + (if skipped oid (db st) r then 0 else 1)"
proof (cases "row_raises oid r")
  case True
  then show ?thesis by (simp add: process_row_raises raises_not_skipped)
next
  case False
  show ?thesis
  proof (cases "blank_skills (row_skills r)")
    case True
    then show ?thesis by (simp add: process_row_blank)
  next
    case nb: False
    with False obtain s k where s: "row_skills r = Str s" "py_strip s \<noteq> []"
        and k: "oid (row_student_id r) = Inr k"
      by (cases "row_skills r"; cases "oid (row_student_id r)")
         (auto simp: row_raises_def blank_skills_def)
    show ?thesis
    proof (cases "db st k")
      case None
      with s k have "unmatched oid (db st) r" by (simp add: unmatched_def)
      then show ?thesis by (simp add: process_row_unmatched)
    next
      case (Some doc)
      with s k nb have ns: "\<not> skipped oid (db st) r"
        by (simp add: skipped_def unmatched_def)
      from row_body_update [where oid = oid and r = r and st = st, OF s k]
      show ?thesis using ns by (auto simp: process_row_with_def)
    qed
  qed
qed

lemma fold_counts:
  "update_count (fold (process_row oid) rows st) + error_count (fold (process_row oid) rows st)
     \<le> update_count st + error_count st
        + int (length (filter (\<lambda>r. \<not> skipped oid (db st) r) rows))"
proof (induction rows arbitrary: st)
  case Nil
  show ?case by simp
next
  case (Cons r rows)
  let ?st = "process_row oid r st"
  have same: "skipped oid (db ?st) = skipped oid (db st)"
    by (rule ext) (rule skipped_dom, rule process_row_dom)
  have ih: "update_count (fold (process_row oid) rows ?st)
            + error_count (fold (process_row oid) rows ?st)
          \<le> update_count ?st + error_count ?st
             + int (length (filter (\<lambda>r. \<not> skipped oid (db st) r) rows))"
    using Cons [of ?st] by (simp only: same)
  have step: "update_count ?st + error_count ?st
          \<le> update_count st + error_count st + (if skipped oid (db st) r then 0 else 1)"
    by (rule process_row_counts)
  show ?case
  proof (cases "skipped oid (db st) r")
    case True
    with ih step show ?thesis by simp
  next
    case False
    with ih step show ?thesis by simp
  qed
qed

text \<open>
  C10. A row whose skills cell is missing or blank, and a row that reaches the update with
  an identifier that parses but matches no document of the store, leave the state as it
  is: the store is not updated and neither count changes. So the two counts of a run add
  up to at most the number of rows that are not skipped, and to strictly less than the
  number of rows as soon as one row is skipped.
\<close>

theorem skipped_rows_are_not_counted:
  "(blank_skills (row_skills r) \<longrightarrow> process_row object_id r st = st)
   \<and> (unmatched object_id (db st) r \<longrightarrow> process_row object_id r st = st)
   \<and> update_count (process_skills_csv_to_mongodb object_id rows store)
       + error_count (process_skills_csv_to_mongodb object_id rows store)
       \<le> int (length rows) - int (length (filter (skipped object_id store) rows))
   \<and> (list_ex (skipped object_id store) rows
        \<longrightarrow> update_count (process_skills_csv_to_mongodb object_id rows store)
            + error_count (process_skills_csv_to_mongodb object_id rows store)
            < int (length rows))"
proof -
  let ?run = "process_skills_csv_to_mongodb object_id rows store"
  have "update_count ?run + error_count ?run
          \<le> int (length (filter (\<lambda>r. \<not> skipped object_id store r) rows))"
    using fold_counts [of object_id rows "\<lparr>update_count = 0, error_count = 0, db = store\<rparr>"]
    by (simp add: process_skills_csv_to_mongodb_with_def)
  moreover have "int (length (filter (\<lambda>r. \<not> skipped object_id store r) rows))
          = int (length rows) - int (length (filter (skipped object_id store) rows))"
    using sum_length_filter_compl [of "skipped object_id store" rows] by simp
  ultimately have le: "update_count ?run + error_count ?run
          \<le> int (length rows) - int (length (filter (skipped object_id store) rows))"
    by simp
  have "update_count ?run + error_count ?run < int (length rows)"
    if ex: "list_ex (skipped object_id store) rows"
  proof -
    from ex have "filter (skipped object_id store) rows \<noteq> []"
      by (auto simp: list_ex_iff filter_empty_conv)
    then have "0 < int (length (filter (skipped object_id store) rows))"
      by simp
    with le show ?thesis by linarith
  qed
  then have "list_ex (skipped object_id store) rows
        \<longrightarrow> update_count ?run + error_count ?run < int (length rows)"
    by blast
  with le show ?thesis
    by (simp add: process_row_blank process_row_unmatched)
qed

theorem skipped_rows_are_not_counted_witness:
  "list_ex (skipped hex_object_id example_store) example_rows
   \<and> length example_rows = 4
   \<and> update_count (process_skills_csv_to_mongodb hex_object_id example_rows example_store)
       + error_count (process_skills_csv_to_mongodb hex_object_id example_rows example_store)
       \<le> 2"
proof -
  have f: "filter (skipped hex_object_id example_store) example_rows
             = [example_rows ! 1, example_rows ! 3]"
    by code_simp
  have l: "length example_rows = 4" by (simp add: example_rows_def)
  have e: "list_ex (skipped hex_object_id example_store) example_rows"
    by code_simp
  from skipped_rows_are_not_counted
         [where object_id = hex_object_id and rows = example_rows and store = example_store]
  have "update_count (process_skills_csv_to_mongodb hex_object_id example_rows example_store)
       + error_count (process_skills_csv_to_mongodb hex_object_id example_rows example_store)
       \<le> int (length example_rows)
          - int (length (filter (skipped hex_object_id example_store) example_rows))"
    by blast
  with f l e show ?thesis by simp
qed

end
